theory Spec2Isabelle
  imports Main "HOL-Library.AList"
begin

section \<open>The browser environment\<close>

text \<open>
  The Atlas components act on the DOM. The environment is one record, passed through
  every operation: the part of a browser page that the components read and write.
  Elements are identified by numbers. Inline styles are kept per element as a map from
  the CSS property name to its value (\<open>element.style.backgroundColor\<close> is the property
  \<open>background-color\<close>); attributes likewise. \<open>el.focus()\<close> makes \<open>el\<close> the
  active element. The components attach nodes to \<open>document.body\<close> only, so the document
  is represented by the children of the body, and \<open>el.remove()\<close> takes \<open>el\<close> out of them.
  A callback given to \<open>setTimeout\<close> or \<open>requestAnimationFrame\<close> is queued as a task,
  named after the place in the source that queues it, and runs in a later step; pending
  timers may fire in any order. Event listeners are kept as registrations (target, event
  type, handler), the handler named after the function of the source.
\<close>

type_synonym node = nat

datatype target = Document | Node node

datatype handler =
    TrapHandleKeyDown | TrapHandleFocusOut
  | HandleBackdropClick | HandleEscapeKey
  | HandleClickOutside | HandleMenuKeyDown | HandleItemClick
  | HandleTriggerClick | HandleTriggerKeyDown

type_synonym listener = "target \<times> string \<times> handler"

datatype frame_task =
    TrapInitialFocus
  | ModalAnimateInFrame
  | DrawerBackdropFrame | DrawerSlideFrame
  | DropdownAnimateInFrame

datatype timer_task =
    AnnounceText node string | AnnounceRemove node
  | ModalCloseResume
  | DrawerActivateTrap | DrawerCloseResume
  | DropdownCloseResume | DropdownFocusFirst | DropdownFocusLast

text \<open>
  The callbacks of the caller (\<open>onOpen\<close>, \<open>onClose\<close>, \<open>onSelect\<close>) are code of the page.
  An invocation is recorded in \<open>calls\<close>, and so is every entry into \<open>close()\<close> of a
  component, so that invocations can be counted.
\<close>

datatype call = CalledClose | OnOpen | OnClose | OnSelect node int

record world =
  browser :: bool
  nextNode :: nat
  idCounter :: nat
  tagName :: "node \<Rightarrow> string"
  attributes :: "node \<Rightarrow> string \<rightharpoonup> string"
  inlineStyle :: "node \<Rightarrow> string \<rightharpoonup> string"
  classList :: "node \<Rightarrow> string list"
  textContent :: "node \<Rightarrow> string"
  descendants :: "node \<Rightarrow> node list"
  parentElement :: "node \<Rightarrow> node option"
  offsetParent :: "node \<Rightarrow> node option"
  bodyChildren :: "node list"
  bodyCssText :: string
  scrollX :: int
  scrollY :: int
  activeElement :: "node option"
  listeners :: "listener list"
  timers :: "(nat \<times> timer_task) list"
  frames :: "frame_task list"
  calls :: "call list"

record event =
  target :: "node option"
  defaultPrevented :: bool

record keyboard_event = event +
  key :: string
  shiftKey :: bool

record focus_event = event +
  relatedTarget :: "node option"

definition preventDefault :: "'a event_scheme \<Rightarrow> 'a event_scheme" where
  "preventDefault e = e\<lparr>defaultPrevented := True\<rparr>"

definition focus :: "node \<Rightarrow> world \<Rightarrow> world" where
  "focus el w = w\<lparr>activeElement := Some el\<rparr>"

definition getAttribute :: "node \<Rightarrow> string \<Rightarrow> world \<Rightarrow> string option" where
  "getAttribute el k w = attributes w el k"

definition hasAttribute :: "node \<Rightarrow> string \<Rightarrow> world \<Rightarrow> bool" where
  "hasAttribute el k w = (attributes w el k \<noteq> None)"

definition setAttribute :: "node \<Rightarrow> string \<Rightarrow> string \<Rightarrow> world \<Rightarrow> world" where
  "setAttribute el k v w = w\<lparr>attributes := (attributes w)(el := (attributes w el)(k \<mapsto> v))\<rparr>"

definition removeAttribute :: "node \<Rightarrow> string \<Rightarrow> world \<Rightarrow> world" where
  "removeAttribute el k w = w\<lparr>attributes := (attributes w)(el := (attributes w el)(k := None))\<rparr>"

fun setAttributes :: "node \<Rightarrow> (string \<times> string) list \<Rightarrow> world \<Rightarrow> world" where
  "setAttributes el [] w = w"
| "setAttributes el ((k, v) # kvs) w = setAttributes el kvs (setAttribute el k v w)"

text \<open>
  The CSSOM calls of the source: \<open>getPropertyValue\<close> gives the empty string for a
  property that is not set, and \<open>setProperty\<close> with the empty string removes the property.
  Values are stored as written.
\<close>

definition getPropertyValue :: "node \<Rightarrow> string \<Rightarrow> world \<Rightarrow> string" where
  "getPropertyValue el p w = (case inlineStyle w el p of None \<Rightarrow> [] | Some v \<Rightarrow> v)"

definition removeProperty :: "node \<Rightarrow> string \<Rightarrow> world \<Rightarrow> world" where
  "removeProperty el p w = w\<lparr>inlineStyle := (inlineStyle w)(el := (inlineStyle w el)(p := None))\<rparr>"

definition setProperty :: "node \<Rightarrow> string \<Rightarrow> string \<Rightarrow> world \<Rightarrow> world" where
  "setProperty el p v w =
     w\<lparr>inlineStyle :=
         (inlineStyle w)(el := (inlineStyle w el)(p := (if v = [] then None else Some v)))\<rparr>"

fun setProperties :: "node \<Rightarrow> (string \<times> string) list \<Rightarrow> world \<Rightarrow> world" where
  "setProperties el [] w = w"
| "setProperties el ((p, v) # pvs) w = setProperties el pvs (setProperty el p v w)"

definition classList_add :: "node \<Rightarrow> string \<Rightarrow> world \<Rightarrow> world" where
  "classList_add el c w =
     w\<lparr>classList :=
         (classList w)(el := (if c \<in> set (classList w el) then classList w el
                              else classList w el @ [c]))\<rparr>"

definition classList_remove :: "node \<Rightarrow> string \<Rightarrow> world \<Rightarrow> world" where
  "classList_remove el c w = w\<lparr>classList := (classList w)(el := removeAll c (classList w el))\<rparr>"

definition appendChild :: "node \<Rightarrow> world \<Rightarrow> world" where
  "appendChild el w = w\<lparr>bodyChildren := removeAll el (bodyChildren w) @ [el]\<rparr>"

definition remove_node :: "node \<Rightarrow> world \<Rightarrow> world" where
  "remove_node el w = w\<lparr>bodyChildren := removeAll el (bodyChildren w)\<rparr>"

definition contains :: "node \<Rightarrow> node \<Rightarrow> world \<Rightarrow> bool" where
  "contains c el w = (el = c \<or> el \<in> set (descendants w c))"

definition requestAnimationFrame :: "frame_task \<Rightarrow> world \<Rightarrow> world" where
  "requestAnimationFrame t w = w\<lparr>frames := frames w @ [t]\<rparr>"

definition setTimeout :: "timer_task \<Rightarrow> nat \<Rightarrow> world \<Rightarrow> world" where
  "setTimeout t ms w = w\<lparr>timers := timers w @ [(ms, t)]\<rparr>"

definition record_call :: "call \<Rightarrow> world \<Rightarrow> world" where
  "record_call c w = w\<lparr>calls := calls w @ [c]\<rparr>"

text \<open>Decimal rendering of numbers, as \<open>String(n)\<close> and template strings do.\<close>

definition digit_char :: "nat \<Rightarrow> char" where
  "digit_char d = char_of (48 + d)"

fun string_of_nat :: "nat \<Rightarrow> string" where
  "string_of_nat n =
     (if n < 10 then [digit_char n] else string_of_nat (n div 10) @ [digit_char (n mod 10)])"

declare string_of_nat.simps [simp del]

definition string_of_int :: "int \<Rightarrow> string" where
  "string_of_int i = (if i < 0 then CHR ''-'' # string_of_nat (nat (- i)) else string_of_nat (nat i))"

section \<open>shared/types.ts\<close>

datatype animation_timing = Instant | Fast | Normal | Slow

fun ANIMATION_DURATION :: "animation_timing \<Rightarrow> nat" where
  "ANIMATION_DURATION Instant = 0"
| "ANIMATION_DURATION Fast = 150"
| "ANIMATION_DURATION Normal = 250"
| "ANIMATION_DURATION Slow = 400"

definition EASING_standard :: string where "EASING_standard = ''cubic-bezier(0.4, 0, 0.2, 1)''"
definition EASING_decelerate :: string where "EASING_decelerate = ''cubic-bezier(0, 0, 0.2, 1)''"
definition EASING_accelerate :: string where "EASING_accelerate = ''cubic-bezier(0.4, 0, 1, 1)''"
definition EASING_spring :: string where
  "EASING_spring = ''cubic-bezier(0.175, 0.885, 0.32, 1.275)''"

definition Z_INDEX_dropdown :: nat where "Z_INDEX_dropdown = 100"
definition Z_INDEX_drawer :: nat where "Z_INDEX_drawer = 300"
definition Z_INDEX_modal :: nat where "Z_INDEX_modal = 400"

section \<open>shared/dom.ts\<close>

definition isBrowser :: "world \<Rightarrow> bool" where
  "isBrowser w = browser w"

definition getDocument :: "world \<Rightarrow> world option" where
  "getDocument w = (if isBrowser w then Some w else None)"

text \<open>
  \<open>createElement\<close>: the new element is the next unused node; class name, attributes and
  styles are applied in the order of the source. No caller passes a dataset.
\<close>

definition createElement ::
  "string \<Rightarrow> string \<Rightarrow> (string \<times> string) list \<Rightarrow> (string \<times> string) list \<Rightarrow> world
     \<Rightarrow> node option \<times> world" where
  "createElement tag className attrs styles w =
     (case getDocument w of
        None \<Rightarrow> (None, w)
      | Some doc \<Rightarrow>
          let el = nextNode doc;
              w1 = doc\<lparr>nextNode := Suc el, tagName := (tagName doc)(el := tag)\<rparr>;
              w2 = (if className \<noteq> [] then w1\<lparr>classList := (classList w1)(el := [className])\<rparr>
                    else w1);
              w3 = setAttributes el attrs w2;
              w4 = setProperties el styles w3
          in (Some el, w4))"

definition matchesFocusable :: "world \<Rightarrow> node \<Rightarrow> bool" where
  "matchesFocusable w el =
     ((tagName w el = ''a'' \<and> hasAttribute el ''href'' w)
      \<or> (tagName w el = ''button'' \<and> \<not> hasAttribute el ''disabled'' w)
      \<or> (tagName w el = ''input'' \<and> \<not> hasAttribute el ''disabled'' w)
      \<or> (tagName w el = ''select'' \<and> \<not> hasAttribute el ''disabled'' w)
      \<or> (tagName w el = ''textarea'' \<and> \<not> hasAttribute el ''disabled'' w)
      \<or> (hasAttribute el ''tabindex'' w \<and> getAttribute el ''tabindex'' w \<noteq> Some ''-1''))"

definition getFocusableElements :: "node \<Rightarrow> world \<Rightarrow> node list" where
  "getFocusableElements c w =
     filter (\<lambda>el. offsetParent w el \<noteq> None) (filter (matchesFocusable w) (descendants w c))"

text \<open>
  \<open>lockScroll\<close> returns a closure over the captured \<open>originalStyle\<close> and \<open>scrollY\<close>;
  without a document it returns the empty closure.
\<close>

datatype unlock = NoUnlock | Unlock string int

definition scrollTo :: "int \<Rightarrow> int \<Rightarrow> world \<Rightarrow> world" where
  "scrollTo x y w = w\<lparr>scrollX := x, scrollY := y\<rparr>"

definition lockedCssText :: "int \<Rightarrow> string" where
  "lockedCssText y =
     [CHR 0x0A] @ ''    position: fixed;'' @ [CHR 0x0A]
     @ ''    top: -'' @ string_of_int y @ ''px;'' @ [CHR 0x0A]
     @ ''    left: 0;'' @ [CHR 0x0A]
     @ ''    right: 0;'' @ [CHR 0x0A]
     @ ''    overflow: hidden;'' @ [CHR 0x0A] @ ''  ''"

definition lockScroll :: "world \<Rightarrow> unlock \<times> world" where
  "lockScroll w =
     (case getDocument w of
        None \<Rightarrow> (NoUnlock, w)
      | Some doc \<Rightarrow>
          let y = scrollY doc;
              originalStyle = bodyCssText doc
          in (Unlock originalStyle y, doc\<lparr>bodyCssText := lockedCssText y\<rparr>))"

fun run_unlock :: "unlock \<Rightarrow> world \<Rightarrow> world" where
  "run_unlock NoUnlock w = w"
| "run_unlock (Unlock originalStyle y) w = scrollTo 0 y (w\<lparr>bodyCssText := originalStyle\<rparr>)"

text \<open>
  \<open>addListener\<close> registers the listener and returns the closure that removes it; the
  closure is represented by the registration it removes. Registering a listener a second
  time on the same target and type has no effect, as in the DOM.
\<close>

definition addListener :: "target \<Rightarrow> string \<Rightarrow> handler \<Rightarrow> world \<Rightarrow> listener \<times> world" where
  "addListener tg ty h w =
     ((tg, ty, h),
      w\<lparr>listeners := (if (tg, ty, h) \<in> set (listeners w) then listeners w
                         else listeners w @ [(tg, ty, h)])\<rparr>)"

definition run_cleanup :: "listener \<Rightarrow> world \<Rightarrow> world" where
  "run_cleanup l w = w\<lparr>listeners := removeAll l (listeners w)\<rparr>"

fun run_cleanups :: "listener list \<Rightarrow> world \<Rightarrow> world" where
  "run_cleanups [] w = w"
| "run_cleanups (l # ls) w = run_cleanups ls (run_cleanup l w)"

section \<open>shared/aria.ts\<close>

definition generateId :: "string \<Rightarrow> world \<Rightarrow> string \<times> world" where
  "generateId prefix w =
     (''atlas-'' @ prefix @ ''-'' @ string_of_nat (Suc (idCounter w)),
      w\<lparr>idCounter := Suc (idCounter w)\<rparr>)"

text \<open>
  A spread \<open>...(x && {k: x})\<close> adds the entry when \<open>x\<close> is a non-empty string.
\<close>

definition spread_if :: "string \<Rightarrow> string option \<Rightarrow> (string \<times> string) list" where
  "spread_if k x = (case x of None \<Rightarrow> [] | Some v \<Rightarrow> if v \<noteq> [] then [(k, v)] else [])"

definition getModalAriaAttributes ::
  "string option \<Rightarrow> string option \<Rightarrow> (string \<times> string) list" where
  "getModalAriaAttributes labelledBy describedBy =
     [(''role'', ''dialog''), (''aria-modal'', ''true'')]
     @ spread_if ''aria-labelledby'' labelledBy @ spread_if ''aria-describedby'' describedBy"

definition getDrawerAriaAttributes :: "string option \<Rightarrow> (string \<times> string) list" where
  "getDrawerAriaAttributes labelledBy =
     [(''role'', ''dialog''), (''aria-modal'', ''true'')] @ spread_if ''aria-labelledby'' labelledBy"

definition getDropdownTriggerAttributes :: "bool \<Rightarrow> string \<Rightarrow> (string \<times> string) list" where
  "getDropdownTriggerAttributes isOpen menuId =
     [(''aria-haspopup'', ''true''),
      (''aria-expanded'', if isOpen then ''true'' else ''false''),
      (''aria-controls'', menuId)]"

definition getDropdownMenuAttributes :: "string \<Rightarrow> string \<Rightarrow> (string \<times> string) list" where
  "getDropdownMenuAttributes ident labelledBy =
     [(''role'', ''menu''), (''id'', ident), (''aria-labelledby'', labelledBy)]"

definition getMenuItemAttributes :: "bool \<Rightarrow> (string \<times> string) list" where
  "getMenuItemAttributes disabled =
     [(''role'', ''menuitem''), (''tabindex'', if disabled then ''-1'' else ''0'')]
     @ (if disabled then [(''aria-disabled'', ''true'')] else [])"

text \<open>
  \<open>announce\<close>: a live region is created and appended to the body; one timer writes the
  message into it, a second removes it.
\<close>

definition announce :: "string \<Rightarrow> world \<Rightarrow> world" where
  "announce message w =
     (if \<not> browser w then w
      else
        let region = nextNode w;
            w1 = w\<lparr>nextNode := Suc region, tagName := (tagName w)(region := ''div'')\<rparr>;
            w2 = setAttribute region ''role'' ''status'' w1;
            w3 = setAttribute region ''aria-live'' ''polite'' w2;
            w4 = setAttribute region ''aria-atomic'' ''true'' w3;
            w5 = setProperties region
                   [(''position'', ''absolute''), (''width'', ''1px''), (''height'', ''1px''),
                    (''padding'', ''0''), (''margin'', ''-1px''), (''overflow'', ''hidden''),
                    (''clip'', ''rect(0, 0, 0, 0)''), (''white-space'', ''nowrap''),
                    (''border'', ''0'')] w4;
            w6 = appendChild region w5;
            w7 = setTimeout (AnnounceText region message) 100 w6
        in setTimeout (AnnounceRemove region) 1000 w7)"

fun run_announce_task :: "timer_task \<Rightarrow> world \<Rightarrow> world" where
  "run_announce_task (AnnounceText region message) w =
     w\<lparr>textContent := (textContent w)(region := message)\<rparr>"
| "run_announce_task (AnnounceRemove region) w = remove_node region w"
| "run_announce_task _ w = w"

text \<open>\<open>el.id\<close> reads the \<open>id\<close> attribute, the empty string when there is none.\<close>

definition element_id :: "node \<Rightarrow> world \<Rightarrow> string" where
  "element_id el w = (case getAttribute el ''id'' w of None \<Rightarrow> [] | Some v \<Rightarrow> v)"

text \<open>
  \<open>el.closest(selector)\<close>: the nearest of the element and its ancestors that matches. A
  chain of parents is no longer than the number of nodes created.
\<close>

fun closest_from :: "nat \<Rightarrow> (node \<Rightarrow> bool) \<Rightarrow> node \<Rightarrow> world \<Rightarrow> node option" where
  "closest_from 0 sel el w = None"
| "closest_from (Suc k) sel el w =
     (if sel el then Some el
      else case parentElement w el of None \<Rightarrow> None | Some p \<Rightarrow> closest_from k sel p w)"

definition closest :: "(node \<Rightarrow> bool) \<Rightarrow> node \<Rightarrow> world \<Rightarrow> node option" where
  "closest sel el w = closest_from (Suc (nextNode w)) sel el w"

section \<open>shared/focus-trap.ts\<close>

datatype initial_focus = InitialFirst | InitialContainer | InitialElement node

datatype return_focus = ReturnPrevious | ReturnElement node

datatype callback = CloseCallback

text \<open>
  A focus trap is the closure made by \<open>createFocusTrap\<close>: the options, fixed at creation,
  and the four variables. \<open>onEscape\<close> names the callback of the owner; a handler returns
  the callbacks it invoked, and the owner runs them.
\<close>

record focus_trap =
  container :: node
  initialFocus :: initial_focus
  returnFocus :: return_focus
  onEscape :: "callback option"
  isActive :: bool
  previouslyFocused :: "node option"
  focusableElements :: "node list"
  trapCleanupListeners :: "listener list"

definition createFocusTrap ::
  "node \<Rightarrow> initial_focus \<Rightarrow> return_focus \<Rightarrow> callback option \<Rightarrow> focus_trap" where
  "createFocusTrap c i r esc =
     \<lparr>container = c, initialFocus = i, returnFocus = r, onEscape = esc,
      isActive = False, previouslyFocused = None, focusableElements = [],
      trapCleanupListeners = []\<rparr>"

definition updateElements :: "focus_trap \<Rightarrow> world \<Rightarrow> focus_trap" where
  "updateElements t w = t\<lparr>focusableElements := getFocusableElements (container t) w\<rparr>"

definition handleKeyDown ::
  "keyboard_event \<Rightarrow> focus_trap \<times> world \<Rightarrow> focus_trap \<times> world \<times> keyboard_event \<times> callback list"
  where
  "handleKeyDown e s =
     (let t = fst s; w = snd s in
      if \<not> isActive t then (t, w, e, [])
      else if key e = ''Escape'' then
        (t, w, preventDefault e, (case onEscape t of None \<Rightarrow> [] | Some c \<Rightarrow> [c]))
      else if key e = ''Tab'' then
        (let t1 = updateElements t w in
         if length (focusableElements t1) = 0 then (t1, w, preventDefault e, [])
         else
           let firstElement = focusableElements t1 ! 0;
               lastElement = focusableElements t1 ! (length (focusableElements t1) - 1)
           in case getDocument w of
                None \<Rightarrow> (t1, w, e, [])
              | Some doc \<Rightarrow>
                  if shiftKey e then
                    (if activeElement doc = Some firstElement
                        \<or> activeElement doc = Some (container t1)
                     then (t1, focus lastElement doc, preventDefault e, [])
                     else (t1, doc, e, []))
                  else
                    (if activeElement doc = Some lastElement
                     then (t1, focus firstElement doc, preventDefault e, [])
                     else (t1, doc, e, [])))
      else (t, w, e, []))"

definition handleFocusOut ::
  "focus_event \<Rightarrow> focus_trap \<times> world \<Rightarrow> focus_trap \<times> world \<times> focus_event" where
  "handleFocusOut e s =
     (let t = fst s; w = snd s in
      if \<not> isActive t then (t, w, e)
      else case relatedTarget e of
             None \<Rightarrow> (t, w, e)
           | Some rt \<Rightarrow>
               if \<not> contains (container t) rt w then
                 (t,
                  (case focusableElements t of [] \<Rightarrow> w | el # _ \<Rightarrow> focus el w),
                  preventDefault e)
               else (t, w, e))"

text \<open>The callback that \<open>activate\<close> hands to \<open>requestAnimationFrame\<close>.\<close>

definition trapInitialFocus :: "focus_trap \<times> world \<Rightarrow> focus_trap \<times> world" where
  "trapInitialFocus s =
     (let t = fst s; w = snd s in
      if initialFocus t = InitialFirst \<and> length (focusableElements t) > 0 then
        (t, focus (focusableElements t ! 0) w)
      else if initialFocus t = InitialContainer then
        (t, focus (container t) (setAttribute (container t) ''tabindex'' ''-1'' w))
      else case initialFocus t of
             InitialElement el \<Rightarrow> (t, focus el w)
           | _ \<Rightarrow> (t, w))"

definition activate :: "focus_trap \<times> world \<Rightarrow> focus_trap \<times> world" where
  "activate s =
     (let t = fst s; w = snd s in
      if isActive t then (t, w)
      else
        let t1 = t\<lparr>isActive := True\<rparr> in
        case getDocument w of
          None \<Rightarrow> (t1, w)
        | Some doc \<Rightarrow>
            let t2 = t1\<lparr>previouslyFocused := activeElement doc\<rparr>;
                t3 = updateElements t2 doc;
                w1 = requestAnimationFrame TrapInitialFocus doc;
                (l1, w2) = addListener Document ''keydown'' TrapHandleKeyDown w1;
                (l2, w3) = addListener (Node (container t3)) ''focusout'' TrapHandleFocusOut w2
            in (t3\<lparr>trapCleanupListeners := trapCleanupListeners t3 @ [l1, l2]\<rparr>, w3))"

definition deactivate :: "focus_trap \<times> world \<Rightarrow> focus_trap \<times> world" where
  "deactivate s =
     (let t = fst s; w = snd s in
      if \<not> isActive t then (t, w)
      else
        let t1 = t\<lparr>isActive := False\<rparr>;
            w1 = run_cleanups (trapCleanupListeners t1) w;
            t2 = t1\<lparr>trapCleanupListeners := []\<rparr>;
            w2 = (if getAttribute (container t2) ''tabindex'' w1 = Some ''-1''
                  then removeAttribute (container t2) ''tabindex'' w1 else w1);
            w3 = (case (returnFocus t2, previouslyFocused t2) of
                    (ReturnPrevious, Some p) \<Rightarrow> focus p w2
                  | (ReturnPrevious, None) \<Rightarrow> w2
                  | (ReturnElement el, _) \<Rightarrow> focus el w2)
        in (t2\<lparr>previouslyFocused := None\<rparr>, w3))"




section \<open>effects/utils: StyleManager\<close>

text \<open>
  \<open>originalStyles\<close> is a \<open>Map\<close> from elements to \<open>Map\<close>s from property names to
  values. Both are kept as association lists in insertion order, which is the order in
  which \<open>forEach\<close> visits the entries: \<open>set\<close> on a key that is present replaces
  its value in place, on a new key it appends.
\<close>

record style_manager =
  originalStyles :: "(node \<times> (string \<times> string) list) list"

definition createStyleManager :: style_manager where
  "createStyleManager = \<lparr>originalStyles = []\<rparr>"

definition saveStyle :: "node \<Rightarrow> string \<Rightarrow> style_manager \<times> world \<Rightarrow> style_manager \<times> world" where
  "saveStyle element property s =
     (let m = fst s; w = snd s;
          os1 = (if map_of (originalStyles m) element = None
                 then AList.update element [] (originalStyles m) else originalStyles m)
      in case map_of os1 element of
           None \<Rightarrow> (m\<lparr>originalStyles := os1\<rparr>, w)
         | Some elementStyles \<Rightarrow>
             if map_of elementStyles property = None then
               let computedValue = getPropertyValue element property w
               in (m\<lparr>originalStyles :=
                      AList.update element (AList.update property computedValue elementStyles) os1\<rparr>,
                   w)
             else (m\<lparr>originalStyles := os1\<rparr>, w))"

definition setStyle ::
  "node \<Rightarrow> string \<Rightarrow> string \<Rightarrow> style_manager \<times> world \<Rightarrow> style_manager \<times> world" where
  "setStyle element property v s =
     (let s1 = saveStyle element property s
      in (fst s1, setProperty element property v (snd s1)))"

fun setStyles ::
  "node \<Rightarrow> (string \<times> string) list \<Rightarrow> style_manager \<times> world \<Rightarrow> style_manager \<times> world" where
  "setStyles element [] s = s"
| "setStyles element ((property, v) # styles) s =
     setStyles element styles (setStyle element property v s)"

fun restoreEntry :: "node \<Rightarrow> string \<times> string \<Rightarrow> world \<Rightarrow> world" where
  "restoreEntry element (property, v) w =
     (if v = [] then removeProperty element property w
      else setProperty element property v w)"

definition restore :: "node \<Rightarrow> style_manager \<times> world \<Rightarrow> style_manager \<times> world" where
  "restore element s =
     (let m = fst s; w = snd s in
      case map_of (originalStyles m) element of
        None \<Rightarrow> (m, w)
      | Some elementStyles \<Rightarrow>
          (m\<lparr>originalStyles := AList.delete element (originalStyles m)\<rparr>,
           fold (restoreEntry element) elementStyles w))"

definition restoreAll :: "style_manager \<times> world \<Rightarrow> style_manager \<times> world" where
  "restoreAll s = fold restore (map fst (originalStyles (fst s))) s"

definition clear :: "node option \<Rightarrow> style_manager \<Rightarrow> style_manager" where
  "clear element m =
     (case element of
        Some el \<Rightarrow> m\<lparr>originalStyles := AList.delete el (originalStyles m)\<rparr>
      | None \<Rightarrow> m\<lparr>originalStyles := []\<rparr>)"

text \<open>
  The restore point that a manager holds for a property of an element, if any, and the
  entries it holds for an element.
\<close>

definition recorded :: "style_manager \<Rightarrow> node \<Rightarrow> string \<Rightarrow> string option" where
  "recorded m el p =
     (case map_of (originalStyles m) el of None \<Rightarrow> None | Some es \<Rightarrow> map_of es p)"

definition entries :: "style_manager \<Rightarrow> node \<Rightarrow> (string \<times> string) list" where
  "entries m el = (case map_of (originalStyles m) el of None \<Rightarrow> [] | Some es \<Rightarrow> es)"

section \<open>Components: what they share\<close>

text \<open>
  A component is the closure made by its \<open>create\<close> function: the options, fixed at
  creation, and the variables. \<open>BaseComponentOptions\<close> and \<open>BaseComponentState\<close> are
  common to all of them. Without a browser \<open>create\<close> returns an object whose operations
  do nothing and whose \<open>isOpen\<close> is false: the record with \<open>live = False\<close>. A callback
  option says whether the caller supplied one. An option that was left out is \<open>None\<close>, and
  the default of the destructuring applies.
\<close>

record component =
  live :: bool
  onOpen :: bool
  onClose :: bool
  animation :: animation_timing
  isOpen :: bool
  cleanupListeners :: "listener list"

definition duration :: "'a component_scheme \<Rightarrow> nat" where
  "duration c = ANIMATION_DURATION (animation c)"

definition with_default :: "'a \<Rightarrow> 'a option \<Rightarrow> 'a" where
  "with_default d x = (case x of None \<Rightarrow> d | Some v \<Rightarrow> v)"

definition ms :: "nat \<Rightarrow> string" where
  "ms n = string_of_nat n @ ''ms''"

section \<open>components/dropdown\<close>

datatype placement_t = PlaceTop | PlaceBottom | PlaceLeft | PlaceRight

fun TRANSFORM_ORIGINS :: "placement_t \<Rightarrow> string" where
  "TRANSFORM_ORIGINS PlaceTop = ''bottom center''"
| "TRANSFORM_ORIGINS PlaceBottom = ''top center''"
| "TRANSFORM_ORIGINS PlaceLeft = ''right center''"
| "TRANSFORM_ORIGINS PlaceRight = ''left center''"

record dropdown_options =
  opt_placement :: "placement_t option"
  opt_closeOnClickOutside :: "bool option"
  opt_closeOnSelect :: "bool option"
  opt_ddAnimation :: "animation_timing option"
  opt_offset :: "int option"
  opt_ddOnOpen :: bool
  opt_ddOnClose :: bool
  opt_onSelect :: bool

record dropdown = component +
  trigger :: node
  menu :: node
  placement :: placement_t
  closeOnClickOutside :: bool
  closeOnSelect :: bool
  offset :: int
  onSelect :: bool
  triggerId :: string
  menuId :: string
  focusedIndex :: int
  menuItems :: "node list"
  triggerClickCleanup :: "listener option"
  triggerKeydownCleanup :: "listener option"

definition updateTriggerAria :: "dropdown \<times> world \<Rightarrow> dropdown \<times> world" where
  "updateTriggerAria s =
     (fst s, setAttributes (trigger (fst s))
               (getDropdownTriggerAttributes (isOpen (fst s)) (menuId (fst s))) (snd s))"

definition matchesMenuItem :: "world \<Rightarrow> node \<Rightarrow> bool" where
  "matchesMenuItem w el =
     (getAttribute el ''role'' w = Some ''menuitem'' \<or> hasAttribute el ''data-dropdown-item'' w)"

definition getMenuItems :: "node \<Rightarrow> world \<Rightarrow> node list" where
  "getMenuItems m w =
     filter (\<lambda>item. \<not> hasAttribute item ''disabled'' w
                     \<and> getAttribute item ''aria-disabled'' w \<noteq> Some ''true'')
       (filter (matchesMenuItem w) (descendants w m))"

fun setMissingAttributes :: "node \<Rightarrow> (string \<times> string) list \<Rightarrow> world \<Rightarrow> world" where
  "setMissingAttributes item [] w = w"
| "setMissingAttributes item ((k, v) # kvs) w =
     setMissingAttributes item kvs (if \<not> hasAttribute item k w then setAttribute item k v w else w)"

definition updateMenuItems :: "dropdown \<times> world \<Rightarrow> dropdown \<times> world" where
  "updateMenuItems s =
     (let d = (fst s)\<lparr>menuItems := getMenuItems (menu (fst s)) (snd s)\<rparr>
      in (d, fold (\<lambda>item. setMissingAttributes item (getMenuItemAttributes False))
               (menuItems d) (snd s)))"

text \<open>
  \<open>positionMenu\<close> computes \<open>top\<close> and \<open>left\<close> from the rectangles that the layout engine
  reports and writes them to \<open>menu.style.top\<close> and \<open>menu.style.left\<close>. Nothing else reads
  these two properties; the layout is not part of the environment, and \<open>open\<close> is given
  here without that call.
\<close>

definition removeFocusIndicators :: "node list \<Rightarrow> world \<Rightarrow> world" where
  "removeFocusIndicators items w =
     fold (\<lambda>item. classList_remove item ''atlas-dropdown-focused'') items w"

definition focusItem :: "int \<Rightarrow> dropdown \<times> world \<Rightarrow> dropdown \<times> world" where
  "focusItem index s =
     (let d = fst s; w = snd s in
      if length (menuItems d) = 0 then (d, w)
      else
        let index1 = (if index < 0 then int (length (menuItems d)) - 1 else index);
            index2 = (if index1 \<ge> int (length (menuItems d)) then 0 else index1);
            w1 = removeFocusIndicators (menuItems d) w;
            d1 = d\<lparr>focusedIndex := index2\<rparr>;
            item = menuItems d1 ! nat (focusedIndex d1);
            w2 = classList_add item ''atlas-dropdown-focused'' w1
        in (d1, focus item w2))"

definition dropdown_animateOut :: "dropdown \<times> world \<Rightarrow> dropdown \<times> world" where
  "dropdown_animateOut s =
     (let d = fst s; w = snd s;
          w1 = setProperty (menu d) ''transition''
                 (''opacity '' @ ms (duration d) @ '' '' @ EASING_accelerate
                  @ '', transform '' @ ms (duration d) @ '' '' @ EASING_accelerate) w;
          w2 = setProperty (menu d) ''opacity'' ''0'' w1;
          w3 = setProperty (menu d) ''transform'' ''scale(0.95)'' w2
      in (d, setTimeout DropdownCloseResume (duration d) w3))"

text \<open>
  \<open>close\<close> is asynchronous. \<open>dropdown_close\<close> is what runs inside the call, up to the
  \<open>await\<close>; \<open>dropdown_close_resume\<close> is the timer callback of \<open>animateOut\<close> followed by the
  rest of \<open>close\<close>, and runs when the timer fires.
\<close>

definition dropdown_close :: "dropdown \<times> world \<Rightarrow> dropdown \<times> world" where
  "dropdown_close s =
     (if \<not> live (fst s) then s
      else
        let d = fst s; w = record_call CalledClose (snd s) in
        if \<not> isOpen d then (d, w)
        else
        let d1 = d\<lparr>isOpen := False\<rparr>;
            (d2, w1) = updateTriggerAria (d1, w);
            w2 = removeFocusIndicators (menuItems d2) w1;
            d3 = d2\<lparr>focusedIndex := - 1\<rparr>;
            w3 = run_cleanups (cleanupListeners d3) w2;
            d4 = d3\<lparr>cleanupListeners := []\<rparr>
        in dropdown_animateOut (d4, w3))"

definition dropdown_close_resume :: "dropdown \<times> world \<Rightarrow> dropdown \<times> world" where
  "dropdown_close_resume s =
     (let d = fst s; w = snd s;
          w1 = setProperty (menu d) ''visibility'' ''hidden'' w;
          w2 = setProperty (menu d) ''pointer-events'' ''none'' w1
      in (d, if onClose d then record_call OnClose w2 else w2))"

fun indexOf_from :: "int \<Rightarrow> 'a list \<Rightarrow> 'a \<Rightarrow> int" where
  "indexOf_from i [] x = - 1"
| "indexOf_from i (y # ys) x = (if y = x then i else indexOf_from (i + 1) ys x)"

definition indexOf :: "'a list \<Rightarrow> 'a \<Rightarrow> int" where
  "indexOf xs x = indexOf_from 0 xs x"

definition selectItem :: "node \<Rightarrow> dropdown \<times> world \<Rightarrow> dropdown \<times> world" where
  "selectItem item s =
     (let d = fst s; w = snd s;
          index = indexOf (menuItems d) item;
          w1 = (if onSelect d then record_call (OnSelect item index) w else w)
      in if closeOnSelect d then dropdown_close (d, w1) else (d, w1))"

definition dropdown_animateIn :: "dropdown \<times> world \<Rightarrow> dropdown \<times> world" where
  "dropdown_animateIn s =
     (let d = fst s; w = snd s;
          w1 = setProperty (menu d) ''visibility'' ''visible'' w;
          w2 = setProperty (menu d) ''pointer-events'' ''auto'' w1;
          w3 = setProperty (menu d) ''transition''
                 (''opacity '' @ ms (duration d) @ '' '' @ EASING_decelerate
                  @ '', transform '' @ ms (duration d) @ '' '' @ EASING_spring) w2
      in (d, requestAnimationFrame DropdownAnimateInFrame w3))"

definition dropdown_animateIn_frame :: "dropdown \<times> world \<Rightarrow> dropdown \<times> world" where
  "dropdown_animateIn_frame s =
     (fst s, setProperty (menu (fst s)) ''transform'' ''scale(1)''
               (setProperty (menu (fst s)) ''opacity'' ''1'' (snd s)))"

definition dropdown_open :: "dropdown \<times> world \<Rightarrow> dropdown \<times> world" where
  "dropdown_open s =
     (let d = fst s; w = snd s in
      if \<not> live d then (d, w)
      else if isOpen d then (d, w)
      else
        let d1 = d\<lparr>isOpen := True\<rparr>;
            (d2, w1) = updateMenuItems (d1, w);
            d3 = d2\<lparr>focusedIndex := - 1\<rparr>;
            (d4, w2) = updateTriggerAria (d3, w1);
            (l1, w3) = addListener Document ''click'' HandleClickOutside w2;
            (l2, w4) = addListener (Node (menu d4)) ''keydown'' HandleMenuKeyDown w3;
            (l3, w5) = addListener (Node (menu d4)) ''click'' HandleItemClick w4;
            d5 = d4\<lparr>cleanupListeners := cleanupListeners d4 @ [l1, l2, l3]\<rparr>;
            (d6, w6) = dropdown_animateIn (d5, w5)
        in (d6, if onOpen d6 then record_call OnOpen w6 else w6))"

definition dropdown_toggle :: "dropdown \<times> world \<Rightarrow> dropdown \<times> world" where
  "dropdown_toggle s =
     (if \<not> live (fst s) then s
      else if isOpen (fst s) then dropdown_close s else dropdown_open s)"

definition handleTriggerClick :: "dropdown \<times> world \<Rightarrow> dropdown \<times> world" where
  "handleTriggerClick s = dropdown_toggle s"

definition handleTriggerKeyDown ::
  "keyboard_event \<Rightarrow> dropdown \<times> world \<Rightarrow> dropdown \<times> world \<times> keyboard_event" where
  "handleTriggerKeyDown e s =
     (if key e = ''Enter'' \<or> key e = '' '' \<or> key e = ''ArrowDown'' then
        (if \<not> isOpen (fst s) then
           (let (d, w) = dropdown_open s in (d, setTimeout DropdownFocusFirst 50 w, preventDefault e))
         else (fst s, snd s, preventDefault e))
      else if key e = ''ArrowUp'' then
        (if \<not> isOpen (fst s) then
           (let (d, w) = dropdown_open s in (d, setTimeout DropdownFocusLast 50 w, preventDefault e))
         else (fst s, snd s, preventDefault e))
      else (fst s, snd s, e))"

definition handleMenuKeyDown ::
  "keyboard_event \<Rightarrow> dropdown \<times> world \<Rightarrow> dropdown \<times> world \<times> keyboard_event" where
  "handleMenuKeyDown e s =
     (let d = fst s; w = snd s in
      if key e = ''ArrowDown'' then
        (let (d1, w1) = focusItem (focusedIndex d + 1) (d, w) in (d1, w1, preventDefault e))
      else if key e = ''ArrowUp'' then
        (let (d1, w1) = focusItem (focusedIndex d - 1) (d, w) in (d1, w1, preventDefault e))
      else if key e = ''Home'' then
        (let (d1, w1) = focusItem 0 (d, w) in (d1, w1, preventDefault e))
      else if key e = ''End'' then
        (let (d1, w1) = focusItem (int (length (menuItems d)) - 1) (d, w)
         in (d1, w1, preventDefault e))
      else if key e = ''Enter'' \<or> key e = '' '' then
        (if focusedIndex d \<ge> 0 \<and> nat (focusedIndex d) < length (menuItems d) then
           (let (d1, w1) = selectItem (menuItems d ! nat (focusedIndex d)) (d, w)
            in (d1, w1, preventDefault e))
         else (d, w, preventDefault e))
      else if key e = ''Escape'' then
        (let (d1, w1) = dropdown_close (d, w) in (d1, focus (trigger d1) w1, preventDefault e))
      else if key e = ''Tab'' then
        (let (d1, w1) = dropdown_close (d, w) in (d1, w1, e))
      else (d, w, e))"

definition handleItemClick :: "event \<Rightarrow> dropdown \<times> world \<Rightarrow> dropdown \<times> world" where
  "handleItemClick e s =
     (case target e of
        None \<Rightarrow> s
      | Some tg \<Rightarrow>
          (case closest (matchesMenuItem (snd s)) tg (snd s) of
             None \<Rightarrow> s
           | Some item \<Rightarrow> if item \<in> set (menuItems (fst s)) then selectItem item s else s))"

definition handleClickOutside :: "event \<Rightarrow> dropdown \<times> world \<Rightarrow> dropdown \<times> world" where
  "handleClickOutside e s =
     (case target e of
        None \<Rightarrow> s
      | Some tg \<Rightarrow>
          if closeOnClickOutside (fst s) \<and> \<not> contains (trigger (fst s)) tg (snd s)
             \<and> \<not> contains (menu (fst s)) tg (snd s)
          then dropdown_close s else s)"

definition dropdown_destroy :: "dropdown \<times> world \<Rightarrow> dropdown \<times> world" where
  "dropdown_destroy s =
     (let d = fst s; w = snd s in
      if \<not> live d then (d, w)
      else
        let w1 = (case triggerClickCleanup d of None \<Rightarrow> w | Some l \<Rightarrow> run_cleanup l w);
            w2 = (case triggerKeydownCleanup d of None \<Rightarrow> w1 | Some l \<Rightarrow> run_cleanup l w1);
            w3 = (if isOpen d then
                    run_cleanups (cleanupListeners d)
                      (setProperty (menu d) ''pointer-events'' ''none''
                         (setProperty (menu d) ''visibility'' ''hidden'' w2))
                  else w2);
            w4 = removeAttribute (trigger d) ''aria-haspopup'' w3;
            w5 = removeAttribute (trigger d) ''aria-expanded'' w4
        in (d, removeAttribute (trigger d) ''aria-controls'' w5))"

definition createDropdown ::
  "node \<Rightarrow> node \<Rightarrow> dropdown_options \<Rightarrow> world \<Rightarrow> dropdown \<times> world" where
  "createDropdown trg mnu options w =
     (let d0 = \<lparr>live = isBrowser w, onOpen = opt_ddOnOpen options, onClose = opt_ddOnClose options,
                 animation = with_default Fast (opt_ddAnimation options),
                 isOpen = False, cleanupListeners = [],
                 trigger = trg, menu = mnu,
                 placement = with_default PlaceBottom (opt_placement options),
                 closeOnClickOutside = with_default True (opt_closeOnClickOutside options),
                 closeOnSelect = with_default True (opt_closeOnSelect options),
                 offset = with_default 4 (opt_offset options),
                 onSelect = opt_onSelect options,
                 triggerId = [], menuId = [],
                 focusedIndex = - 1, menuItems = [],
                 triggerClickCleanup = None, triggerKeydownCleanup = None\<rparr>
      in if \<not> isBrowser w then (d0, w)
         else
           let (tid, w1) = (if element_id trg w \<noteq> [] then (element_id trg w, w)
                            else generateId ''dropdown-trigger'' w);
               (mid, w2) = (if element_id mnu w1 \<noteq> [] then (element_id mnu w1, w1)
                            else generateId ''dropdown-menu'' w1);
               d1 = d0\<lparr>triggerId := tid, menuId := mid\<rparr>;
               w3 = setAttribute trg ''id'' tid w2;
               w4 = setAttribute mnu ''id'' mid w3;
               w5 = setAttributes mnu (getDropdownMenuAttributes mid tid) w4;
               (d2, w6) = updateTriggerAria (d1, w5);
               w7 = setProperties mnu
                      [(''position'', ''absolute''),
                       (''z-index'', string_of_nat Z_INDEX_dropdown),
                       (''opacity'', ''0''),
                       (''transform'', ''scale(0.95)''),
                       (''transform-origin'', TRANSFORM_ORIGINS (placement d2)),
                       (''visibility'', ''hidden''),
                       (''pointer-events'', ''none'')] w6;
               (l1, w8) = addListener (Node trg) ''click'' HandleTriggerClick w7;
               (l2, w9) = addListener (Node trg) ''keydown'' HandleTriggerKeyDown w8
           in (d2\<lparr>triggerClickCleanup := Some l1, triggerKeydownCleanup := Some l2\<rparr>, w9))"

text \<open>The callbacks that the dropdown hands to \<open>setTimeout\<close> and \<open>requestAnimationFrame\<close>.\<close>

fun dropdown_timer_task :: "timer_task \<Rightarrow> dropdown \<times> world \<Rightarrow> dropdown \<times> world" where
  "dropdown_timer_task DropdownCloseResume s = dropdown_close_resume s"
| "dropdown_timer_task DropdownFocusFirst s = focusItem 0 s"
| "dropdown_timer_task DropdownFocusLast s = focusItem (int (length (menuItems (fst s))) - 1) s"
| "dropdown_timer_task t s = (fst s, run_announce_task t (snd s))"

fun dropdown_frame_task :: "frame_task \<Rightarrow> dropdown \<times> world \<Rightarrow> dropdown \<times> world" where
  "dropdown_frame_task DropdownAnimateInFrame s = dropdown_animateIn_frame s"
| "dropdown_frame_task t s = s"

text \<open>
  A keydown event sent to the menu reaches \<open>handleMenuKeyDown\<close> when that listener is
  registered on the menu.
\<close>

definition menu_keydown ::
  "keyboard_event \<Rightarrow> dropdown \<times> world \<Rightarrow> dropdown \<times> world \<times> keyboard_event" where
  "menu_keydown e s =
     (if (Node (menu (fst s)), ''keydown'', HandleMenuKeyDown) \<in> set (listeners (snd s))
      then handleMenuKeyDown e s else (fst s, snd s, e))"

definition press :: "string \<Rightarrow> dropdown \<times> world \<Rightarrow> dropdown \<times> world" where
  "press k s =
     (case menu_keydown \<lparr>target = Some (menu (fst s)), defaultPrevented = False,
                         key = k, shiftKey = False\<rparr> s of
        (d, w, e) \<Rightarrow> (d, w))"

section \<open>components/modal\<close>

record overlay_options =
  opt_backdrop :: "bool option"
  opt_closeOnBackdrop :: "bool option"
  opt_closeOnEscape :: "bool option"
  opt_trapFocus :: "bool option"
  opt_animation :: "animation_timing option"
  opt_backdropBlur :: "bool option"
  opt_ariaLabel :: "string option"
  opt_ariaLabelledBy :: "string option"
  opt_onOpen :: bool
  opt_onClose :: bool

record modal_options = overlay_options +
  opt_ariaDescribedBy :: "string option"

text \<open>The variables and options that the closures of a modal and of a drawer share.\<close>

record overlay = component +
  element :: node
  backdrop :: bool
  closeOnBackdrop :: bool
  closeOnEscape :: bool
  trapFocus :: bool
  backdropBlur :: bool
  backdropElement :: "node option"
  focusTrap :: "focus_trap option"
  unlockScroll :: "unlock option"

text \<open>\<open>focusTrap?.f()\<close>: nothing happens when there is no trap.\<close>

definition with_trap ::
  "(focus_trap \<times> world \<Rightarrow> focus_trap \<times> world) \<Rightarrow>
   'a overlay_scheme \<times> world \<Rightarrow> 'a overlay_scheme \<times> world" where
  "with_trap f s =
     (case focusTrap (fst s) of
        None \<Rightarrow> s
      | Some t \<Rightarrow> ((fst s)\<lparr>focusTrap := Some (fst (f (t, snd s)))\<rparr>, snd (f (t, snd s))))"

definition backdrop_transition :: "nat \<Rightarrow> string" where
  "backdrop_transition d =
     ''background-color '' @ ms d @ '' '' @ EASING_standard
     @ '', backdrop-filter '' @ ms d @ '' '' @ EASING_standard"

definition modal_createBackdropElement :: "overlay \<times> world \<Rightarrow> node option \<times> world" where
  "modal_createBackdropElement s =
     (if \<not> backdrop (fst s) then (None, snd s)
      else createElement ''div'' ''atlas-modal-backdrop''
             [(''data-atlas-modal-backdrop'', []), (''aria-hidden'', ''true'')]
             [(''position'', ''fixed''),
              (''inset'', ''0''),
              (''z-index'', string_of_nat (Z_INDEX_modal - 1)),
              (''background-color'', ''rgba(0, 0, 0, 0)''),
              (''backdrop-filter'', if backdropBlur (fst s) then ''blur(0px)'' else ''none''),
              (''display'', ''flex''),
              (''align-items'', ''center''),
              (''justify-content'', ''center''),
              (''transition'', backdrop_transition (duration (fst s)))]
             (snd s))"

definition modal_animateIn :: "overlay \<times> world \<Rightarrow> overlay \<times> world" where
  "modal_animateIn s =
     (if backdropElement (fst s) = None then s
      else (fst s, requestAnimationFrame ModalAnimateInFrame (snd s)))"

definition backdrop_fade ::
  "string \<Rightarrow> string \<Rightarrow> 'a overlay_scheme \<times> world \<Rightarrow> world" where
  "backdrop_fade colour blur s =
     (case backdropElement (fst s) of
        None \<Rightarrow> snd s
      | Some b \<Rightarrow>
          let w1 = setProperty b ''background-color'' colour (snd s)
          in if backdropBlur (fst s) then setProperty b ''backdrop-filter'' blur w1 else w1)"

definition modal_animateIn_frame :: "overlay \<times> world \<Rightarrow> overlay \<times> world" where
  "modal_animateIn_frame s =
     (let w1 = backdrop_fade ''rgba(0, 0, 0, 0.5)'' ''blur(4px)'' s;
          w2 = setProperty (element (fst s)) ''opacity'' ''1'' w1
      in (fst s, setProperty (element (fst s)) ''transform'' ''scale(1)'' w2))"

definition modal_animateOut :: "overlay \<times> world \<Rightarrow> overlay \<times> world" where
  "modal_animateOut s =
     (let w1 = backdrop_fade ''rgba(0, 0, 0, 0)'' ''blur(0px)'' s;
          w2 = setProperty (element (fst s)) ''opacity'' ''0'' w1;
          w3 = setProperty (element (fst s)) ''transform'' ''scale(0.95)'' w2
      in (fst s, setTimeout ModalCloseResume (duration (fst s)) w3))"

text \<open>
  \<open>close\<close> is asynchronous. \<open>modal_close\<close> is what runs inside the call, up to the
  \<open>await\<close>, and leaves the timer of \<open>animateOut\<close> pending; \<open>modal_close_resume\<close> is the rest
  of \<open>close\<close>, which runs when that timer fires.
\<close>

definition modal_close :: "overlay \<times> world \<Rightarrow> overlay \<times> world" where
  "modal_close s =
     (if \<not> live (fst s) then s
      else
        let m = fst s; w = record_call CalledClose (snd s) in
        if \<not> isOpen m then (m, w)
        else modal_animateOut (with_trap deactivate (m\<lparr>isOpen := False\<rparr>, w)))"

definition modal_close_resume :: "overlay \<times> world \<Rightarrow> overlay \<times> world" where
  "modal_close_resume s =
     (let m = fst s; w = snd s;
          w1 = setProperty (element m) ''display'' ''none'' w;
          w2 = setAttribute (element m) ''aria-hidden'' ''true'' w1;
          w3 = (case backdropElement m of None \<Rightarrow> w2 | Some b \<Rightarrow> remove_node b w2);
          m1 = m\<lparr>backdropElement := None\<rparr>;
          w4 = run_cleanups (cleanupListeners m1) w3;
          m2 = m1\<lparr>cleanupListeners := []\<rparr>;
          w5 = (case unlockScroll m2 of None \<Rightarrow> w4 | Some u \<Rightarrow> run_unlock u w4);
          m3 = m2\<lparr>unlockScroll := None\<rparr>;
          w6 = announce ''Dialog closed'' w5
      in (m3, if onClose m3 then record_call OnClose w6 else w6))"

definition modal_handleBackdropClick :: "event \<Rightarrow> overlay \<times> world \<Rightarrow> overlay \<times> world" where
  "modal_handleBackdropClick e s =
     (if closeOnBackdrop (fst s) \<and> target e = backdropElement (fst s) then modal_close s else s)"

definition modal_handleEscapeKey ::
  "keyboard_event \<Rightarrow> overlay \<times> world \<Rightarrow> overlay \<times> world \<times> keyboard_event" where
  "modal_handleEscapeKey e s =
     (if closeOnEscape (fst s) \<and> key e = ''Escape'' \<and> isOpen (fst s)
      then (fst (modal_close s), snd (modal_close s), preventDefault e)
      else (fst s, snd s, e))"

text \<open>The backdrop part of \<open>open\<close>: create, append, and listen for clicks.\<close>

definition modal_mountBackdrop :: "overlay \<times> world \<Rightarrow> overlay \<times> world" where
  "modal_mountBackdrop s =
     (if \<not> backdrop (fst s) then s
      else
        let created = modal_createBackdropElement s;
            m1 = (fst s)\<lparr>backdropElement := fst created\<rparr>
        in case fst created of
             None \<Rightarrow> (m1, snd created)
           | Some b \<Rightarrow>
               let w1 = appendChild b (snd created)
               in if closeOnBackdrop m1
                  then (m1\<lparr>cleanupListeners :=
                           cleanupListeners m1
                           @ [fst (addListener (Node b) ''click'' HandleBackdropClick w1)]\<rparr>,
                        snd (addListener (Node b) ''click'' HandleBackdropClick w1))
                  else (m1, w1))"

definition modal_open :: "overlay \<times> world \<Rightarrow> overlay \<times> world" where
  "modal_open s =
     (let m = fst s; w = snd s in
      if \<not> live m then (m, w)
      else if isOpen m then (m, w)
      else
        let m1 = m\<lparr>isOpen := True\<rparr>;
            m2 = m1\<lparr>unlockScroll := Some (fst (lockScroll w))\<rparr>;
            s3 = modal_mountBackdrop (m2, snd (lockScroll w));
            m4 = fst s3;
            w2 = snd s3;
            w3 = setProperties (element m4)
                   [(''display'', []),
                    (''position'', ''fixed''),
                    (''z-index'', string_of_nat Z_INDEX_modal),
                    (''opacity'', ''0''),
                    (''transform'', ''scale(0.95)''),
                    (''transition'',
                       ''opacity '' @ ms (duration m4) @ '' '' @ EASING_decelerate
                       @ '', transform '' @ ms (duration m4) @ '' '' @ EASING_spring)] w2;
            w4 = setAttribute (element m4) ''aria-hidden'' ''false'' w3;
            w5 = (if closeOnEscape m4 \<and> \<not> trapFocus m4
                  then snd (addListener Document ''keydown'' HandleEscapeKey w4) else w4);
            m5 = (if closeOnEscape m4 \<and> \<not> trapFocus m4
                  then m4\<lparr>cleanupListeners :=
                          cleanupListeners m4 @ [(Document, ''keydown'', HandleEscapeKey)]\<rparr>
                  else m4);
            s6 = modal_animateIn (m5, w5);
            s7 = with_trap activate s6;
            w8 = announce ''Dialog opened'' (snd s7)
        in (fst s7, if onOpen (fst s7) then record_call OnOpen w8 else w8))"

definition modal_toggle :: "overlay \<times> world \<Rightarrow> overlay \<times> world" where
  "modal_toggle s =
     (if \<not> live (fst s) then s
      else if isOpen (fst s) then modal_close s else modal_open s)"

definition modal_update :: "overlay \<times> world \<Rightarrow> overlay \<times> world" where
  "modal_update s =
     (if \<not> live (fst s) then s
      else with_trap (\<lambda>tw. (updateElements (fst tw) (snd tw), snd tw)) s)"

definition modal_destroy :: "overlay \<times> world \<Rightarrow> overlay \<times> world" where
  "modal_destroy s =
     (if \<not> live (fst s) then s
      else
        let s1 =
              (if isOpen (fst s) then
                 let s' = with_trap deactivate s;
                     m = fst s';
                     w1 = setProperty (element m) ''display'' ''none'' (snd s');
                     w2 = setAttribute (element m) ''aria-hidden'' ''true'' w1;
                     w3 = (case backdropElement m of None \<Rightarrow> w2 | Some b \<Rightarrow> remove_node b w2);
                     w4 = run_cleanups (cleanupListeners m) w3
                 in (m, case unlockScroll m of None \<Rightarrow> w4 | Some u \<Rightarrow> run_unlock u w4)
               else s);
            w5 = removeAttribute (element (fst s1)) ''aria-modal'' (snd s1)
        in (fst s1, removeAttribute (element (fst s1)) ''aria-hidden'' w5))"

definition createModal :: "node \<Rightarrow> modal_options \<Rightarrow> world \<Rightarrow> overlay \<times> world" where
  "createModal el options w =
     (let m0 = \<lparr>live = isBrowser w, onOpen = opt_onOpen options, onClose = opt_onClose options,
                 animation = with_default Normal (opt_animation options),
                 isOpen = False, cleanupListeners = [],
                 element = el,
                 backdrop = with_default True (opt_backdrop options),
                 closeOnBackdrop = with_default True (opt_closeOnBackdrop options),
                 closeOnEscape = with_default True (opt_closeOnEscape options),
                 trapFocus = with_default True (opt_trapFocus options),
                 backdropBlur = with_default True (opt_backdropBlur options),
                 backdropElement = None, focusTrap = None, unlockScroll = None\<rparr>
      in if \<not> isBrowser w then (m0, w)
         else
           let generated = generateId ''modal'' w;
               w1 = snd generated;
               w2 = setAttribute el ''id''
                      (if element_id el w1 \<noteq> [] then element_id el w1 else fst generated) w1;
               w3 = setAttributes el
                      (getModalAriaAttributes (opt_ariaLabelledBy options)
                         (opt_ariaDescribedBy options)) w2;
               w4 = (case opt_ariaLabel options of
                       None \<Rightarrow> w3
                     | Some l \<Rightarrow> if l \<noteq> [] then setAttribute el ''aria-label'' l w3 else w3);
               w5 = setAttribute el ''aria-hidden'' ''true'' w4;
               w6 = setProperty el ''display'' ''none'' w5;
               m1 = (if trapFocus m0
                     then m0\<lparr>focusTrap :=
                             Some (createFocusTrap el InitialFirst ReturnPrevious
                                     (if closeOnEscape m0 then Some CloseCallback else None))\<rparr>
                     else m0)
           in (m1, w6))"

section \<open>components/drawer\<close>

datatype drawer_side = SideLeft | SideRight | SideTop | SideBottom

fun side_name :: "drawer_side \<Rightarrow> string" where
  "side_name SideLeft = ''left''"
| "side_name SideRight = ''right''"
| "side_name SideTop = ''top''"
| "side_name SideBottom = ''bottom''"

fun TRANSFORMS_open :: "drawer_side \<Rightarrow> string" where
  "TRANSFORMS_open SideLeft = ''translateX(0)''"
| "TRANSFORMS_open SideRight = ''translateX(0)''"
| "TRANSFORMS_open SideTop = ''translateY(0)''"
| "TRANSFORMS_open SideBottom = ''translateY(0)''"

fun TRANSFORMS_closed :: "drawer_side \<Rightarrow> string" where
  "TRANSFORMS_closed SideLeft = ''translateX(-100%)''"
| "TRANSFORMS_closed SideRight = ''translateX(100%)''"
| "TRANSFORMS_closed SideTop = ''translateY(-100%)''"
| "TRANSFORMS_closed SideBottom = ''translateY(100%)''"

fun POSITIONS :: "drawer_side \<Rightarrow> (string \<times> string) list" where
  "POSITIONS SideLeft =
     [(''top'', ''0''), (''left'', ''0''), (''bottom'', ''0''), (''width'', ''auto''),
      (''height'', ''100%'')]"
| "POSITIONS SideRight =
     [(''top'', ''0''), (''right'', ''0''), (''bottom'', ''0''), (''width'', ''auto''),
      (''height'', ''100%'')]"
| "POSITIONS SideTop =
     [(''top'', ''0''), (''left'', ''0''), (''right'', ''0''), (''width'', ''100%''),
      (''height'', ''auto'')]"
| "POSITIONS SideBottom =
     [(''bottom'', ''0''), (''left'', ''0''), (''right'', ''0''), (''width'', ''100%''),
      (''height'', ''auto'')]"

record drawer_options = overlay_options +
  opt_side :: "drawer_side option"

record drawer = overlay +
  side :: drawer_side

definition drawer_createBackdropElement :: "drawer \<times> world \<Rightarrow> node option \<times> world" where
  "drawer_createBackdropElement s =
     (if \<not> backdrop (fst s) then (None, snd s)
      else createElement ''div'' ''atlas-drawer-backdrop''
             [(''data-atlas-drawer-backdrop'', []), (''data-side'', side_name (side (fst s))),
              (''aria-hidden'', ''true'')]
             [(''position'', ''fixed''),
              (''inset'', ''0''),
              (''z-index'', string_of_nat (Z_INDEX_drawer - 1)),
              (''background-color'', ''rgba(0, 0, 0, 0)''),
              (''backdrop-filter'', if backdropBlur (fst s) then ''blur(0px)'' else ''none''),
              (''transition'', backdrop_transition (duration (fst s)))]
             (snd s))"

definition drawer_animateIn :: "drawer \<times> world \<Rightarrow> drawer \<times> world" where
  "drawer_animateIn s =
     (let d = fst s;
          w1 = (if backdropElement d \<noteq> None
                then requestAnimationFrame DrawerBackdropFrame (snd s) else snd s);
          w2 = setProperty (element d) ''transition''
                 (''transform '' @ ms (duration d) @ '' '' @ EASING_spring @ '', visibility 0ms'') w1;
          w3 = setProperty (element d) ''visibility'' ''visible'' w2
      in (d, requestAnimationFrame DrawerSlideFrame w3))"

definition drawer_backdrop_frame :: "drawer \<times> world \<Rightarrow> drawer \<times> world" where
  "drawer_backdrop_frame s = (fst s, backdrop_fade ''rgba(0, 0, 0, 0.5)'' ''blur(4px)'' s)"

definition drawer_slide_frame :: "drawer \<times> world \<Rightarrow> drawer \<times> world" where
  "drawer_slide_frame s =
     (fst s, setProperty (element (fst s)) ''transform'' (TRANSFORMS_open (side (fst s))) (snd s))"

definition drawer_animateOut :: "drawer \<times> world \<Rightarrow> drawer \<times> world" where
  "drawer_animateOut s =
     (let d = fst s;
          w1 = backdrop_fade ''rgba(0, 0, 0, 0)'' ''blur(0px)'' s;
          w2 = setProperty (element d) ''transition''
                 (''transform '' @ ms (duration d) @ '' '' @ EASING_accelerate
                  @ '', visibility 0ms '' @ ms (duration d)) w1;
          w3 = setProperty (element d) ''transform'' (TRANSFORMS_closed (side d)) w2
      in (d, setTimeout DrawerCloseResume (duration d) w3))"

definition drawer_close :: "drawer \<times> world \<Rightarrow> drawer \<times> world" where
  "drawer_close s =
     (if \<not> live (fst s) then s
      else
        let d = fst s; w = record_call CalledClose (snd s) in
        if \<not> isOpen d then (d, w)
        else drawer_animateOut (with_trap deactivate (d\<lparr>isOpen := False\<rparr>, w)))"

text \<open>
  When the timer of \<open>animateOut\<close> fires, its callback hides the element and resolves the
  promise; the rest of \<open>close\<close> follows.
\<close>

definition drawer_close_resume :: "drawer \<times> world \<Rightarrow> drawer \<times> world" where
  "drawer_close_resume s =
     (let d = fst s;
          w0 = setProperty (element d) ''visibility'' ''hidden'' (snd s);
          w1 = setAttribute (element d) ''aria-hidden'' ''true'' w0;
          w2 = (case backdropElement d of None \<Rightarrow> w1 | Some b \<Rightarrow> remove_node b w1);
          d1 = d\<lparr>backdropElement := None\<rparr>;
          w3 = run_cleanups (cleanupListeners d1) w2;
          d2 = d1\<lparr>cleanupListeners := []\<rparr>;
          w4 = (case unlockScroll d2 of None \<Rightarrow> w3 | Some u \<Rightarrow> run_unlock u w3);
          d3 = d2\<lparr>unlockScroll := None\<rparr>;
          w5 = announce ''Drawer closed'' w4
      in (d3, if onClose d3 then record_call OnClose w5 else w5))"

definition drawer_handleBackdropClick :: "event \<Rightarrow> drawer \<times> world \<Rightarrow> drawer \<times> world" where
  "drawer_handleBackdropClick e s =
     (if closeOnBackdrop (fst s) \<and> target e = backdropElement (fst s) then drawer_close s else s)"

definition drawer_handleEscapeKey ::
  "keyboard_event \<Rightarrow> drawer \<times> world \<Rightarrow> drawer \<times> world \<times> keyboard_event" where
  "drawer_handleEscapeKey e s =
     (if closeOnEscape (fst s) \<and> key e = ''Escape'' \<and> isOpen (fst s)
      then (fst (drawer_close s), snd (drawer_close s), preventDefault e)
      else (fst s, snd s, e))"

definition drawer_mountBackdrop :: "drawer \<times> world \<Rightarrow> drawer \<times> world" where
  "drawer_mountBackdrop s =
     (if \<not> backdrop (fst s) then s
      else
        let created = drawer_createBackdropElement s;
            d1 = (fst s)\<lparr>backdropElement := fst created\<rparr>
        in case fst created of
             None \<Rightarrow> (d1, snd created)
           | Some b \<Rightarrow>
               let w1 = appendChild b (snd created)
               in if closeOnBackdrop d1
                  then (d1\<lparr>cleanupListeners :=
                           cleanupListeners d1
                           @ [fst (addListener (Node b) ''click'' HandleBackdropClick w1)]\<rparr>,
                        snd (addListener (Node b) ''click'' HandleBackdropClick w1))
                  else (d1, w1))"

definition drawer_open :: "drawer \<times> world \<Rightarrow> drawer \<times> world" where
  "drawer_open s =
     (let d = fst s; w = snd s in
      if \<not> live d then (d, w)
      else if isOpen d then (d, w)
      else
        let d1 = d\<lparr>isOpen := True\<rparr>;
            d2 = d1\<lparr>unlockScroll := Some (fst (lockScroll w))\<rparr>;
            s3 = drawer_mountBackdrop (d2, snd (lockScroll w));
            d4 = fst s3;
            w3 = setAttribute (element d4) ''aria-hidden'' ''false'' (snd s3);
            w4 = (if closeOnEscape d4 \<and> \<not> trapFocus d4
                  then snd (addListener Document ''keydown'' HandleEscapeKey w3) else w3);
            d5 = (if closeOnEscape d4 \<and> \<not> trapFocus d4
                  then d4\<lparr>cleanupListeners :=
                          cleanupListeners d4 @ [(Document, ''keydown'', HandleEscapeKey)]\<rparr>
                  else d4);
            s6 = drawer_animateIn (d5, w4);
            w7 = setTimeout DrawerActivateTrap 50 (snd s6);
            w8 = announce (side_name (side (fst s6)) @ '' drawer opened'') w7
        in (fst s6, if onOpen (fst s6) then record_call OnOpen w8 else w8))"

definition drawer_toggle :: "drawer \<times> world \<Rightarrow> drawer \<times> world" where
  "drawer_toggle s =
     (if \<not> live (fst s) then s
      else if isOpen (fst s) then drawer_close s else drawer_open s)"

definition drawer_update :: "drawer \<times> world \<Rightarrow> drawer \<times> world" where
  "drawer_update s =
     (if \<not> live (fst s) then s
      else with_trap (\<lambda>tw. (updateElements (fst tw) (snd tw), snd tw)) s)"

definition drawer_destroy :: "drawer \<times> world \<Rightarrow> drawer \<times> world" where
  "drawer_destroy s =
     (if \<not> live (fst s) then s
      else
        let s1 =
              (if isOpen (fst s) then
                 let s' = with_trap deactivate s;
                     d = fst s';
                     w1 = setProperty (element d) ''visibility'' ''hidden'' (snd s');
                     w2 = setProperty (element d) ''transform'' (TRANSFORMS_closed (side d)) w1;
                     w3 = setAttribute (element d) ''aria-hidden'' ''true'' w2;
                     w4 = (case backdropElement d of None \<Rightarrow> w3 | Some b \<Rightarrow> remove_node b w3);
                     w5 = run_cleanups (cleanupListeners d) w4
                 in (d, case unlockScroll d of None \<Rightarrow> w5 | Some u \<Rightarrow> run_unlock u w5)
               else s);
            w6 = removeAttribute (element (fst s1)) ''aria-modal'' (snd s1)
        in (fst s1, removeAttribute (element (fst s1)) ''aria-hidden'' w6))"

definition createDrawer :: "node \<Rightarrow> drawer_options \<Rightarrow> world \<Rightarrow> drawer \<times> world" where
  "createDrawer el options w =
     (let d0 = \<lparr>live = isBrowser w, onOpen = opt_onOpen options, onClose = opt_onClose options,
                 animation = with_default Normal (opt_animation options),
                 isOpen = False, cleanupListeners = [],
                 element = el,
                 backdrop = with_default True (opt_backdrop options),
                 closeOnBackdrop = with_default True (opt_closeOnBackdrop options),
                 closeOnEscape = with_default True (opt_closeOnEscape options),
                 trapFocus = with_default True (opt_trapFocus options),
                 backdropBlur = with_default True (opt_backdropBlur options),
                 backdropElement = None, focusTrap = None, unlockScroll = None,
                 side = with_default SideRight (opt_side options)\<rparr>
      in if \<not> isBrowser w then (d0, w)
         else
           let generated = generateId ''drawer'' w;
               w1 = snd generated;
               w2 = setAttribute el ''id''
                      (if element_id el w1 \<noteq> [] then element_id el w1 else fst generated) w1;
               w3 = setAttributes el (getDrawerAriaAttributes (opt_ariaLabelledBy options)) w2;
               w4 = (case opt_ariaLabel options of
                       None \<Rightarrow> w3
                     | Some l \<Rightarrow> if l \<noteq> [] then setAttribute el ''aria-label'' l w3 else w3);
               w5 = setAttribute el ''aria-hidden'' ''true'' w4;
               w6 = setProperties el
                      ([(''position'', ''fixed''),
                        (''z-index'', string_of_nat Z_INDEX_drawer),
                        (''transform'', TRANSFORMS_closed (side d0)),
                        (''visibility'', ''hidden'')] @ POSITIONS (side d0)) w5;
               d1 = (if trapFocus d0
                     then d0\<lparr>focusTrap :=
                             Some (createFocusTrap el InitialFirst ReturnPrevious
                                     (if closeOnEscape d0 then Some CloseCallback else None))\<rparr>
                     else d0)
           in (d1, w6))"

section \<open>Running a modal\<close>

text \<open>
  What happens to a modal after its creation: the page calls one of its operations, a
  pending timer fires, an animation frame runs the queued callbacks, or an event is
  dispatched to the listeners that are registered at that moment. A listener that an
  earlier listener of the same event has removed is not called.
\<close>

datatype overlay_op =
    Open | Close | Toggle | Update | Destroy
  | Timer nat | Frame
  | KeyDown keyboard_event | Click event | FocusOut focus_event

fun modal_timer_task :: "timer_task \<Rightarrow> overlay \<times> world \<Rightarrow> overlay \<times> world" where
  "modal_timer_task ModalCloseResume s = modal_close_resume s"
| "modal_timer_task t s = (fst s, run_announce_task t (snd s))"

fun modal_frame_task :: "frame_task \<Rightarrow> overlay \<times> world \<Rightarrow> overlay \<times> world" where
  "modal_frame_task ModalAnimateInFrame s = modal_animateIn_frame s"
| "modal_frame_task TrapInitialFocus s = with_trap trapInitialFocus s"
| "modal_frame_task t s = s"

fun modal_callback :: "callback \<Rightarrow> overlay \<times> world \<Rightarrow> overlay \<times> world" where
  "modal_callback CloseCallback s = modal_close s"

definition modal_trap_keydown ::
  "keyboard_event \<Rightarrow> overlay \<times> world \<Rightarrow> overlay \<times> world \<times> keyboard_event" where
  "modal_trap_keydown e s =
     (case focusTrap (fst s) of
        None \<Rightarrow> (fst s, snd s, e)
      | Some t \<Rightarrow>
          (case handleKeyDown e (t, snd s) of
             (t1, w1, e1, cbs) \<Rightarrow>
               let s1 = fold modal_callback cbs ((fst s)\<lparr>focusTrap := Some t1\<rparr>, w1)
               in (fst s1, snd s1, e1)))"

definition modal_trap_focusout :: "focus_event \<Rightarrow> overlay \<times> world \<Rightarrow> overlay \<times> world" where
  "modal_trap_focusout e s =
     (case focusTrap (fst s) of
        None \<Rightarrow> s
      | Some t \<Rightarrow>
          (case handleFocusOut e (t, snd s) of
             (t1, w1, e1) \<Rightarrow> ((fst s)\<lparr>focusTrap := Some t1\<rparr>, w1)))"

fun modal_keydown_handler ::
  "handler \<Rightarrow> keyboard_event \<Rightarrow> overlay \<times> world \<Rightarrow> overlay \<times> world \<times> keyboard_event" where
  "modal_keydown_handler TrapHandleKeyDown e s = modal_trap_keydown e s"
| "modal_keydown_handler HandleEscapeKey e s = modal_handleEscapeKey e s"
| "modal_keydown_handler _ e s = (fst s, snd s, e)"

definition modal_keydown_listener ::
  "listener \<Rightarrow> overlay \<times> world \<times> keyboard_event \<Rightarrow> overlay \<times> world \<times> keyboard_event" where
  "modal_keydown_listener l r =
     (case r of
        (m, w, e) \<Rightarrow>
          if l \<in> set (listeners w) then modal_keydown_handler (snd (snd l)) e (m, w)
          else (m, w, e))"

definition modal_keydown ::
  "keyboard_event \<Rightarrow> overlay \<times> world \<Rightarrow> overlay \<times> world \<times> keyboard_event" where
  "modal_keydown e s =
     fold modal_keydown_listener
       (filter (\<lambda>l. fst l = Document \<and> fst (snd l) = ''keydown'') (listeners (snd s)))
       (fst s, snd s, e)"

definition modal_click_listener :: "event \<Rightarrow> listener \<Rightarrow> overlay \<times> world \<Rightarrow> overlay \<times> world" where
  "modal_click_listener e l s =
     (if l \<in> set (listeners (snd s)) \<and> snd (snd l) = HandleBackdropClick
      then modal_handleBackdropClick e s else s)"

definition modal_click :: "event \<Rightarrow> overlay \<times> world \<Rightarrow> overlay \<times> world" where
  "modal_click e s =
     (case target e of
        None \<Rightarrow> s
      | Some tg \<Rightarrow>
          fold (modal_click_listener e)
            (filter (\<lambda>l. fst (snd l) = ''click''
                          \<and> (case fst l of Document \<Rightarrow> True | Node n \<Rightarrow> contains n tg (snd s)))
               (listeners (snd s)))
            s)"

definition modal_focusout :: "focus_event \<Rightarrow> overlay \<times> world \<Rightarrow> overlay \<times> world" where
  "modal_focusout e s =
     (case target e of
        None \<Rightarrow> s
      | Some tg \<Rightarrow>
          if (Node (element (fst s)), ''focusout'', TrapHandleFocusOut) \<in> set (listeners (snd s))
             \<and> contains (element (fst s)) tg (snd s)
          then modal_trap_focusout e s else s)"

definition modal_timer :: "nat \<Rightarrow> overlay \<times> world \<Rightarrow> overlay \<times> world" where
  "modal_timer i s =
     (if i < length (timers (snd s))
      then modal_timer_task (snd (timers (snd s) ! i))
             (fst s, (snd s)\<lparr>timers := take i (timers (snd s)) @ drop (Suc i) (timers (snd s))\<rparr>)
      else s)"

definition modal_frame :: "overlay \<times> world \<Rightarrow> overlay \<times> world" where
  "modal_frame s = fold modal_frame_task (frames (snd s)) (fst s, (snd s)\<lparr>frames := []\<rparr>)"

fun modal_step :: "overlay_op \<Rightarrow> overlay \<times> world \<Rightarrow> overlay \<times> world" where
  "modal_step Open s = modal_open s"
| "modal_step Close s = modal_close s"
| "modal_step Toggle s = modal_toggle s"
| "modal_step Update s = modal_update s"
| "modal_step Destroy s = modal_destroy s"
| "modal_step (Timer i) s = modal_timer i s"
| "modal_step Frame s = modal_frame s"
| "modal_step (KeyDown e) s = (case modal_keydown e s of (m, w, e') \<Rightarrow> (m, w))"
| "modal_step (Click e) s = modal_click e s"
| "modal_step (FocusOut e) s = modal_focusout e s"

text \<open>
  The number of \<open>close()\<close> calls of the modal whose exit timer has not fired yet, and the
  sequences of steps in which \<open>open()\<close> is not entered while one is pending.
\<close>

definition pendingClose :: "world \<Rightarrow> nat" where
  "pendingClose w = count_list (map snd (timers w)) ModalCloseResume"

fun enters_open :: "overlay_op \<Rightarrow> overlay \<times> world \<Rightarrow> bool" where
  "enters_open Open s = True"
| "enters_open Toggle s = (\<not> isOpen (fst s))"
| "enters_open _ s = False"

fun sequential :: "overlay_op list \<Rightarrow> overlay \<times> world \<Rightarrow> bool" where
  "sequential [] s = True"
| "sequential (op # ops) s =
     ((if enters_open op s then pendingClose (snd s) = 0 else True)
      \<and> sequential ops (modal_step op s))"

section \<open>Running a drawer\<close>

fun drawer_timer_task :: "timer_task \<Rightarrow> drawer \<times> world \<Rightarrow> drawer \<times> world" where
  "drawer_timer_task DrawerCloseResume s = drawer_close_resume s"
| "drawer_timer_task DrawerActivateTrap s = with_trap activate s"
| "drawer_timer_task t s = (fst s, run_announce_task t (snd s))"

fun drawer_frame_task :: "frame_task \<Rightarrow> drawer \<times> world \<Rightarrow> drawer \<times> world" where
  "drawer_frame_task DrawerBackdropFrame s = drawer_backdrop_frame s"
| "drawer_frame_task DrawerSlideFrame s = drawer_slide_frame s"
| "drawer_frame_task TrapInitialFocus s = with_trap trapInitialFocus s"
| "drawer_frame_task t s = s"

text \<open>
  The state of a modal with a backdrop, in a browser, as long as \<open>open()\<close> is not entered
  while a \<open>close()\<close> is pending: at most one \<open>close()\<close> is pending; while none is, a backdrop
  element is held exactly when the modal is open; while one is, the modal is not open and
  still holds its backdrop element.
\<close>

definition modal_inv :: "overlay \<times> world \<Rightarrow> bool" where
  "modal_inv s =
     (live (fst s) \<and> backdrop (fst s) \<and> browser (snd s) \<and> pendingClose (snd s) \<le> 1
      \<and> (if pendingClose (snd s) = 0 then (backdropElement (fst s) \<noteq> None) = isOpen (fst s)
          else \<not> isOpen (fst s) \<and> backdropElement (fst s) \<noteq> None))"

text \<open>
  The steps that leave an open modal open: they call neither \<open>close()\<close>, \<open>toggle()\<close> nor
  \<open>destroy()\<close>, and are neither an Escape keydown nor a click. While only such steps
  happen after \<open>open()\<close>, on a modal with a focus trap that owns Escape, the state
  satisfies \<open>escape_ready\<close>.
\<close>

fun quiet :: "overlay_op \<Rightarrow> bool" where
  "quiet Open = True"
| "quiet Update = True"
| "quiet Frame = True"
| "quiet (Timer i) = True"
| "quiet (FocusOut e) = True"
| "quiet (KeyDown e) = (key e \<noteq> ''Escape'')"
| "quiet _ = False"

definition document_keydown :: "world \<Rightarrow> listener list" where
  "document_keydown w =
     filter (\<lambda>l. fst l = Document \<and> fst (snd l) = ''keydown'') (listeners w)"

definition escape_ready :: "overlay \<times> world \<Rightarrow> bool" where
  "escape_ready s =
     (live (fst s) \<and> isOpen (fst s)
      \<and> (case focusTrap (fst s) of
            None \<Rightarrow> False
          | Some t \<Rightarrow> isActive t \<and> onEscape t = Some CloseCallback)
      \<and> document_keydown (snd s) = [(Document, ''keydown'', TrapHandleKeyDown)]
      \<and> (Document, ''keydown'', TrapHandleKeyDown) \<notin> set (cleanupListeners (fst s)))"

section \<open>A concrete page\<close>

text \<open>
  A page used to run the operations on concrete inputs: a container \<open>0\<close> with three
  rendered buttons \<open>1\<close>, \<open>2\<close>, \<open>3\<close>, an empty container \<open>5\<close>, and a button \<open>9\<close> outside
  both, which has the focus.
\<close>

definition demo_page :: world where
  "demo_page =
     \<lparr>browser = True, nextNode = 10, idCounter = 0,
      tagName = (\<lambda>n. if n = 1 \<or> n = 2 \<or> n = 3 \<or> n = 9 then ''button'' else ''div''),
      attributes = (\<lambda>n. Map.empty),
      inlineStyle = (\<lambda>n. Map.empty),
      classList = (\<lambda>n. []),
      textContent = (\<lambda>n. []),
      descendants = (\<lambda>n. if n = 0 then [1, 2, 3] else []),
      parentElement = (\<lambda>n. if n = 1 \<or> n = 2 \<or> n = 3 then Some 0 else None),
      offsetParent = (\<lambda>n. if n = 1 \<or> n = 2 \<or> n = 3 then Some 0 else None),
      bodyChildren = [0, 5, 9],
      bodyCssText = ''margin: 0px;'',
      scrollX = 0, scrollY = 120,
      activeElement = Some 9,
      listeners = [], timers = [], frames = [], calls = []\<rparr>"

definition tab_event :: "bool \<Rightarrow> keyboard_event" where
  "tab_event shift = \<lparr>target = None, defaultPrevented = False, key = ''Tab'', shiftKey = shift\<rparr>"

definition key_event :: "string \<Rightarrow> keyboard_event" where
  "key_event k = \<lparr>target = None, defaultPrevented = False, key = k, shiftKey = False\<rparr>"

definition fresh_trap :: focus_trap where
  "fresh_trap = createFocusTrap 0 InitialFirst ReturnPrevious (Some CloseCallback)"

definition demo_trap :: "focus_trap \<times> world" where
  "demo_trap = activate (fresh_trap, demo_page)"

definition empty_trap :: "focus_trap \<times> world" where
  "empty_trap = activate (createFocusTrap 5 InitialFirst ReturnPrevious None, demo_page)"

text \<open>A script of the page adds a rendered button \<open>b\<close> at the end of container \<open>c\<close>.\<close>

definition add_button :: "node \<Rightarrow> node \<Rightarrow> world \<Rightarrow> world" where
  "add_button c b w =
     w\<lparr>tagName := (tagName w)(b := ''button''),
       descendants := (descendants w)(c := descendants w c @ [b]),
       offsetParent := (offsetParent w)(b := Some c)\<rparr>"

text \<open>The same page, with an inline opacity on button \<open>1\<close>.\<close>

definition styled_page :: world where
  "styled_page = setProperty 1 ''opacity'' ''0.3'' demo_page"

text \<open>
  A page with a trigger \<open>30\<close> and a menu \<open>31\<close> that holds three menu items \<open>32\<close>,
  \<open>33\<close>, \<open>34\<close> and a disabled fourth, \<open>35\<close>.
\<close>

definition menu_page :: world where
  "menu_page =
     demo_page\<lparr>nextNode := 40,
       tagName := (\<lambda>n. if n = 30 then ''button'' else ''div''),
       attributes :=
         (\<lambda>n. if n = 32 \<or> n = 33 \<or> n = 34 then [''role'' \<mapsto> ''menuitem'']
              else if n = 35 then [''role'' \<mapsto> ''menuitem'', ''disabled'' \<mapsto> []]
              else Map.empty),
       descendants := (\<lambda>n. if n = 31 then [32, 33, 34, 35] else []),
       parentElement := (\<lambda>n. if n = 32 \<or> n = 33 \<or> n = 34 \<or> n = 35 then Some 31 else None),
       bodyChildren := [30, 31],
       activeElement := Some 30\<rparr>"

definition default_dropdown_options :: dropdown_options where
  "default_dropdown_options =
     \<lparr>opt_placement = None, opt_closeOnClickOutside = None, opt_closeOnSelect = None,
      opt_ddAnimation = None, opt_offset = None,
      opt_ddOnOpen = False, opt_ddOnClose = False, opt_onSelect = False\<rparr>"

definition demo_dropdown :: "dropdown \<times> world" where
  "demo_dropdown = createDropdown 30 31 default_dropdown_options menu_page"

text \<open>A modal and a drawer on the dialog element \<open>0\<close> of the page, with the default options.\<close>

definition default_modal_options :: modal_options where
  "default_modal_options =
     \<lparr>opt_backdrop = None, opt_closeOnBackdrop = None, opt_closeOnEscape = None,
      opt_trapFocus = None, opt_animation = None, opt_backdropBlur = None,
      opt_ariaLabel = None, opt_ariaLabelledBy = None,
      opt_onOpen = False, opt_onClose = False, opt_ariaDescribedBy = None\<rparr>"

definition default_drawer_options :: drawer_options where
  "default_drawer_options =
     \<lparr>opt_backdrop = None, opt_closeOnBackdrop = None, opt_closeOnEscape = None,
      opt_trapFocus = None, opt_animation = None, opt_backdropBlur = None,
      opt_ariaLabel = None, opt_ariaLabelledBy = None,
      opt_onOpen = False, opt_onClose = False, opt_side = None\<rparr>"

definition demo_modal :: "overlay \<times> world" where
  "demo_modal = createModal 0 default_modal_options demo_page"

definition demo_drawer :: "drawer \<times> world" where
  "demo_drawer = createDrawer 0 default_drawer_options demo_page"

chapter \<open>Verified properties\<close>

section \<open>The focus trap\<close>

lemma handleKeyDown_tab:
  assumes "isActive t" "key e = ''Tab''"
  shows "handleKeyDown e (t, w) =
    (let fs = getFocusableElements (container t) w; t1 = t\<lparr>focusableElements := fs\<rparr> in
     if fs = [] then (t1, w, preventDefault e, [])
     else if \<not> browser w then (t1, w, e, [])
     else if shiftKey e then
       (if activeElement w = Some (hd fs) \<or> activeElement w = Some (container t)
        then (t1, focus (last fs) w, preventDefault e, []) else (t1, w, e, []))
     else (if activeElement w = Some (last fs)
        then (t1, focus (hd fs) w, preventDefault e, []) else (t1, w, e, [])))"
  using assms
  by (simp add: handleKeyDown_def updateElements_def getDocument_def isBrowser_def Let_def
      hd_conv_nth last_conv_nth)

lemma demo_trap_eval:
  "demo_trap =
     (\<lparr>container = 0, initialFocus = InitialFirst, returnFocus = ReturnPrevious,
       onEscape = Some CloseCallback, isActive = True, previouslyFocused = Some 9,
       focusableElements = [1, 2, 3],
       trapCleanupListeners =
         [(Document, ''keydown'', TrapHandleKeyDown), (Node 0, ''focusout'', TrapHandleFocusOut)]\<rparr>,
      demo_page\<lparr>frames := [TrapInitialFocus],
        listeners :=
          [(Document, ''keydown'', TrapHandleKeyDown), (Node 0, ''focusout'', TrapHandleFocusOut)]\<rparr>)"
  by (simp add: demo_trap_def fresh_trap_def activate_def createFocusTrap_def getDocument_def
      isBrowser_def updateElements_def requestAnimationFrame_def addListener_def Let_def
      getFocusableElements_def matchesFocusable_def hasAttribute_def getAttribute_def
      demo_page_def)



text \<open>
  C8. While the trap is active and the container has no focusable descendant, a Tab
  keydown, with or without Shift, has its default prevented and leaves the page, and so
  the focus, as it is. The handler has no failing branch.
\<close>

theorem trap_empty_swallows_tab:
  assumes "isActive t" and "key e = ''Tab''" and "getFocusableElements (container t) w = []"
  shows "handleKeyDown e (t, w) = (t\<lparr>focusableElements := []\<rparr>, w, preventDefault e, [])
         \<and> defaultPrevented (preventDefault e)"
  using assms by (simp add: handleKeyDown_tab Let_def preventDefault_def)

theorem trap_empty_swallows_tab_witness:
  "isActive (fst empty_trap)
   \<and> getFocusableElements (container (fst empty_trap)) (snd empty_trap) = []
   \<and> handleKeyDown (tab_event True) empty_trap
       = (fst empty_trap, snd empty_trap, preventDefault (tab_event True), [])
   \<and> handleKeyDown (tab_event False) empty_trap
       = (fst empty_trap, snd empty_trap, preventDefault (tab_event False), [])"
proof -
  have ev: "empty_trap =
     (\<lparr>container = 5, initialFocus = InitialFirst, returnFocus = ReturnPrevious,
       onEscape = None, isActive = True, previouslyFocused = Some 9,
       focusableElements = [],
       trapCleanupListeners =
         [(Document, ''keydown'', TrapHandleKeyDown), (Node 5, ''focusout'', TrapHandleFocusOut)]\<rparr>,
      demo_page\<lparr>frames := [TrapInitialFocus],
        listeners :=
          [(Document, ''keydown'', TrapHandleKeyDown), (Node 5, ''focusout'', TrapHandleFocusOut)]\<rparr>)"
    by (simp add: empty_trap_def activate_def createFocusTrap_def getDocument_def isBrowser_def
      updateElements_def requestAnimationFrame_def addListener_def Let_def
      getFocusableElements_def demo_page_def)
  have act: "isActive (fst empty_trap)" by (simp add: ev)
  have k: "\<And>b. key (tab_event b) = ''Tab''" by (simp add: tab_event_def)
  have fs: "getFocusableElements (container (fst empty_trap)) (snd empty_trap) = []"
    by (simp add: ev getFocusableElements_def demo_page_def)
  have same: "fst empty_trap\<lparr>focusableElements := []\<rparr> = fst empty_trap" by (simp add: ev)
  from trap_empty_swallows_tab [OF act k [of True] fs]
    trap_empty_swallows_tab [OF act k [of False] fs]
  show ?thesis using act fs by (simp add: same)
qed

text \<open>
  C10. On a Tab keydown while the trap is active, the list of focusable elements is taken
  again from the container as the page is now: the stored list after the event is that
  list, and the outcome of the event does not depend on the list that was stored before,
  so it is the same whether or not the owner called \<open>updateElements\<close> after the page
  changed.
\<close>

theorem trap_tab_resnapshots:
  assumes "isActive t" and "key e = ''Tab''"
  shows "focusableElements (fst (handleKeyDown e (t, w))) = getFocusableElements (container t) w
         \<and> handleKeyDown e (t\<lparr>focusableElements := stale\<rparr>, w) = handleKeyDown e (t, w)"
  using assms by (simp add: handleKeyDown_tab Let_def)

text \<open>
  The trap was activated over three buttons; a fourth is added afterwards and has the
  focus. Tab wraps from the new button to the first one.
\<close>

theorem trap_tab_resnapshots_witness:
  "isActive (fst demo_trap) \<and> focusableElements (fst demo_trap) = [1, 2, 3]
   \<and> (let w = focus 4 (add_button 0 4 (snd demo_trap));
          r = handleKeyDown (tab_event False) (fst demo_trap, w)
      in focusableElements (fst r) = [1, 2, 3, 4] \<and> activeElement (fst (snd r)) = Some 1
         \<and> defaultPrevented (fst (snd (snd r))))"
proof -
  let ?w = "focus 4 (add_button 0 4 (snd demo_trap))"
  have act: "isActive (fst demo_trap)" by (simp add: demo_trap_eval)
  have k: "key (tab_event False) = ''Tab''" by (simp add: tab_event_def)
  have fs: "getFocusableElements (container (fst demo_trap)) ?w = [1, 2, 3, 4]"
    by (simp add: demo_trap_eval focus_def add_button_def getFocusableElements_def
        matchesFocusable_def hasAttribute_def getAttribute_def demo_page_def)
  have br: "browser ?w" by (simp add: demo_trap_eval focus_def add_button_def demo_page_def)
  have ae: "activeElement ?w = Some 4" by (simp add: focus_def)
  have sh: "\<not> shiftKey (tab_event False)" by (simp add: tab_event_def)
  have r: "handleKeyDown (tab_event False) (fst demo_trap, ?w) =
     (fst demo_trap\<lparr>focusableElements := [1, 2, 3, 4]\<rparr>, focus 1 ?w,
      preventDefault (tab_event False), [])"
    using act k fs br ae sh by (simp add: handleKeyDown_tab Let_def)
  from trap_tab_resnapshots [OF act k, of ?w "[1, 2, 3]"]
  have "focusableElements (fst (handleKeyDown (tab_event False) (fst demo_trap, ?w)))
          = getFocusableElements (container (fst demo_trap)) ?w" by simp
  then show ?thesis using act r fs
    by (simp add: Let_def demo_trap_eval focus_def preventDefault_def)
qed







section \<open>Scroll lock\<close>

text \<open>
  C9. \<open>lockScroll()\<close> captures \<open>window.scrollY\<close> and the inline style string of the body
  before it pins the body. The closure it returns writes that string back and calls
  \<open>window.scrollTo(0, savedY)\<close>, whatever the page looks like when it runs. So a lock
  followed by its unlock leaves the inline style string of the body and the captured
  scroll position \<open>scrollY\<close> as they were before the lock; the horizontal offset is the
  \<open>0\<close> of that call. Without a document nothing is captured and nothing is changed.
\<close>

theorem lockScroll_unlock_restores:
  "fst (lockScroll w) = (if browser w then Unlock (bodyCssText w) (scrollY w) else NoUnlock)
   \<and> snd (lockScroll w) = (if browser w then w\<lparr>bodyCssText := lockedCssText (scrollY w)\<rparr> else w)
   \<and> run_unlock (Unlock (bodyCssText w) (scrollY w)) w'
        = scrollTo 0 (scrollY w) (w'\<lparr>bodyCssText := bodyCssText w\<rparr>)
   \<and> bodyCssText (run_unlock (fst (lockScroll w)) (snd (lockScroll w))) = bodyCssText w
   \<and> scrollY (run_unlock (fst (lockScroll w)) (snd (lockScroll w))) = scrollY w
   \<and> scrollX (run_unlock (fst (lockScroll w)) (snd (lockScroll w)))
        = (if browser w then 0 else scrollX w)"
  by (simp add: lockScroll_def getDocument_def isBrowser_def Let_def scrollTo_def)

theorem lockScroll_unlock_restores_witness:
  "bodyCssText demo_page = ''margin: 0px;'' \<and> scrollY demo_page = 120
   \<and> fst (lockScroll demo_page) = Unlock ''margin: 0px;'' 120
   \<and> bodyCssText (snd (lockScroll demo_page)) \<noteq> ''margin: 0px;''
   \<and> bodyCssText (run_unlock (fst (lockScroll demo_page)) (snd (lockScroll demo_page)))
        = ''margin: 0px;''
   \<and> scrollY (run_unlock (fst (lockScroll demo_page)) (snd (lockScroll demo_page))) = 120"
proof -
  have h: "browser demo_page" "bodyCssText demo_page = ''margin: 0px;''" "scrollY demo_page = 120"
    by (simp_all add: demo_page_def)
  have l: "lockedCssText 120 \<noteq> ''margin: 0px;''" by (simp add: lockedCssText_def)
  from lockScroll_unlock_restores [of demo_page demo_page] h l show ?thesis
    by (simp add: scrollTo_def)
qed

section \<open>StyleManager\<close>

lemma fold_restoreEntry_inlineStyle:
  "distinct (map fst es) \<Longrightarrow>
   inlineStyle (fold (restoreEntry el) es w) el q =
     (case map_of es q of None \<Rightarrow> inlineStyle w el q
      | Some r \<Rightarrow> if r = [] then None else Some r)"
proof (induction es arbitrary: w)
  case Nil
  then show ?case by simp
next
  case (Cons a es)
  obtain p r where a: "a = (p, r)" by (cases a)
  from Cons.prems a have d: "distinct (map fst es)" and np: "p \<notin> fst ` set es" by auto
  from np have mp: "map_of es p = None" by (simp add: map_of_eq_None_iff)
  show ?case
    using Cons.IH [OF d, of "restoreEntry el a w"] a mp
    by (auto simp: setProperty_def removeProperty_def split: option.splits)
qed

lemma saveStyle_recorded:
  "recorded (fst (saveStyle el p (m, w))) el p =
     (case recorded m el p of None \<Rightarrow> Some (getPropertyValue el p w) | Some r \<Rightarrow> Some r)"
  by (auto simp: saveStyle_def recorded_def Let_def update_conv' split: option.splits)

lemma saveStyle_snd: "snd (saveStyle el p s) = snd s"
  by (simp add: saveStyle_def Let_def split: option.splits)

lemma saveStyle_entries_distinct:
  "distinct (map fst (entries m el)) \<Longrightarrow> distinct (map fst (entries (fst (saveStyle el p (m, w))) el))"
  by (auto simp: saveStyle_def entries_def Let_def update_conv' distinct_update split: option.splits)

lemma restore_inlineStyle:
  "distinct (map fst (entries m el)) \<Longrightarrow>
   inlineStyle (snd (restore el (m, w))) el q =
     (case recorded m el q of None \<Rightarrow> inlineStyle w el q
      | Some r \<Rightarrow> if r = [] then None else Some r)"
  by (auto simp: restore_def entries_def recorded_def Let_def fold_restoreEntry_inlineStyle
      split: option.splits)

lemma restore_cleared: "map_of (originalStyles (fst (restore el s))) el = None"
  by (auto simp: restore_def Let_def delete_conv' split: option.splits)

lemma restore_twice: "restore el (restore el s) = restore el s"
proof -
  have "\<And>t. map_of (originalStyles (fst t)) el = None \<Longrightarrow> restore el t = t"
    by (simp add: restore_def)
  from this [OF restore_cleared] show ?thesis .
qed


lemma setStyle_recorded:
  "recorded (fst (setStyle el p v (m, w))) el p =
     (case recorded m el p of None \<Rightarrow> Some (getPropertyValue el p w) | Some r \<Rightarrow> Some r)"
  by (simp add: setStyle_def Let_def saveStyle_recorded)

lemma setStyle_entries_distinct:
  "distinct (map fst (entries m el)) \<Longrightarrow>
   distinct (map fst (entries (fst (setStyle el p v (m, w))) el))"
  by (simp add: setStyle_def Let_def saveStyle_entries_distinct)

text \<open>
  C5. For a manager whose record for the element has each property once (as every
  \<open>Map\<close> has): \<open>setStyle\<close> on a property without a record stores the inline value from
  before the call as the restore point, and on a property with a record leaves the
  record as it is. \<open>restore\<close> writes every recorded value back, removing the property
  when the recorded value is the empty string, and deletes the record of the element.
  After two \<open>setStyle\<close> calls on one property and a \<open>restore\<close>, the property reads
  as it did before the first call. A second \<open>restore\<close> changes nothing.
\<close>

theorem StyleManager_restore_point:
  assumes "distinct (map fst (entries m el))"
  shows "recorded (fst (setStyle el p v (m, w))) el p =
           (case recorded m el p of None \<Rightarrow> Some (getPropertyValue el p w) | Some r \<Rightarrow> Some r)
     \<and> inlineStyle (snd (restore el (m, w))) el q =
           (case recorded m el q of None \<Rightarrow> inlineStyle w el q
            | Some r \<Rightarrow> if r = [] then None else Some r)
     \<and> recorded (fst (restore el (m, w))) el q = None
     \<and> getPropertyValue el p (snd (restore el (setStyle el p v' (setStyle el p v (m, w))))) =
           (case recorded m el p of None \<Rightarrow> getPropertyValue el p w | Some r \<Rightarrow> r)
     \<and> restore el (restore el (m, w)) = restore el (m, w)"
proof -
  let ?s1 = "setStyle el p v (m, w)"
  let ?s2 = "setStyle el p v' ?s1"
  let ?x = "case recorded m el p of None \<Rightarrow> getPropertyValue el p w | Some r \<Rightarrow> r"
  have r1: "recorded (fst ?s1) el p = Some ?x"
    by (simp add: setStyle_recorded split: option.splits)
  have d1: "distinct (map fst (entries (fst ?s1) el))"
    by (rule setStyle_entries_distinct [OF assms])
  have r2: "recorded (fst ?s2) el p = Some ?x"
    using setStyle_recorded [of el p v' "fst ?s1" "snd ?s1"] r1 by simp
  have d2: "distinct (map fst (entries (fst ?s2) el))"
    using setStyle_entries_distinct [OF d1, of p v' "snd ?s1"] by simp
  have "inlineStyle (snd (restore el ?s2)) el p = (if ?x = [] then None else Some ?x)"
    using restore_inlineStyle [OF d2, of "snd ?s2" p] r2 by simp
  then have e: "getPropertyValue el p (snd (restore el ?s2)) = ?x"
    by (simp add: getPropertyValue_def)
  have c: "recorded (fst (restore el (m, w))) el q = None"
    by (simp add: recorded_def restore_cleared)
  show ?thesis
    using e c by (simp add: setStyle_recorded restore_inlineStyle [OF assms] restore_twice)
qed

text \<open>
  Button \<open>1\<close> has the inline opacity \<open>0.3\<close>; after \<open>setStyle\<close> with \<open>0.5\<close>, then
  \<open>0.9\<close>, then \<open>restore\<close>, on a new manager, it is \<open>0.3\<close> again.
\<close>

theorem StyleManager_restore_point_witness:
  "distinct (map fst (entries createStyleManager 1))
   \<and> getPropertyValue 1 ''opacity'' styled_page = ''0.3''
   \<and> recorded (fst (setStyle 1 ''opacity'' ''0.5'' (createStyleManager, styled_page))) 1 ''opacity''
       = Some ''0.3''
   \<and> getPropertyValue 1 ''opacity''
        (snd (restore 1 (setStyle 1 ''opacity'' ''0.9''
           (setStyle 1 ''opacity'' ''0.5'' (createStyleManager, styled_page))))) = ''0.3''
   \<and> restore 1 (restore 1 (createStyleManager, styled_page))
       = restore 1 (createStyleManager, styled_page)"
proof -
  have d: "distinct (map fst (entries createStyleManager 1))"
    by (simp add: entries_def createStyleManager_def)
  have g: "getPropertyValue 1 ''opacity'' styled_page = ''0.3''"
    by (simp add: styled_page_def getPropertyValue_def setProperty_def)
  have n: "recorded createStyleManager 1 ''opacity'' = None"
    by (simp add: recorded_def createStyleManager_def)
  from StyleManager_restore_point [OF d, of "''opacity''" "''0.5''" styled_page "''opacity''" "''0.9''"]
  show ?thesis using d g n by simp
qed


section \<open>Dropdown\<close>

lemma dropdown_open_props:
  assumes "live d" and "\<not> isOpen d" and "getMenuItems (menu d) w = its"
  shows "menuItems (fst (dropdown_open (d, w))) = its
     \<and> focusedIndex (fst (dropdown_open (d, w))) = - 1
     \<and> menu (fst (dropdown_open (d, w))) = menu d
     \<and> (Node (menu d), ''keydown'', HandleMenuKeyDown) \<in> set (listeners (snd (dropdown_open (d, w))))"
  using assms
  by (simp add: dropdown_open_def updateMenuItems_def updateTriggerAria_def addListener_def
      dropdown_animateIn_def Let_def split_def record_call_def requestAnimationFrame_def
      setProperty_def removeProperty_def)

lemma removeFocusIndicators_keeps:
  "listeners (removeFocusIndicators items w) = listeners w"
  by (induction items arbitrary: w) (simp_all add: removeFocusIndicators_def classList_remove_def)

lemma focusItem_props:
  assumes "menuItems (fst s) \<noteq> []"
  shows "focusedIndex (fst (focusItem i s)) =
           (let n = int (length (menuItems (fst s))); j = (if i < 0 then n - 1 else i)
            in if j \<ge> n then 0 else j)
     \<and> menuItems (fst (focusItem i s)) = menuItems (fst s)
     \<and> menu (fst (focusItem i s)) = menu (fst s)
     \<and> listeners (snd (focusItem i s)) = listeners (snd s)
     \<and> activeElement (snd (focusItem i s)) =
          Some (menuItems (fst s) ! nat (focusedIndex (fst (focusItem i s))))"
  using assms
  by (simp add: focusItem_def Let_def focus_def classList_add_def removeFocusIndicators_keeps)

lemma press_ArrowDown:
  assumes "menuItems (fst s) = [a, b, c]"
    and "(Node (menu (fst s)), ''keydown'', HandleMenuKeyDown) \<in> set (listeners (snd s))"
    and "focusedIndex (fst s) = i" and "- 1 \<le> i" and "i \<le> 2"
  shows "focusedIndex (fst (press ''ArrowDown'' s)) = (if i = 2 then 0 else i + 1)
     \<and> menuItems (fst (press ''ArrowDown'' s)) = [a, b, c]
     \<and> menu (fst (press ''ArrowDown'' s)) = menu (fst s)
     \<and> listeners (snd (press ''ArrowDown'' s)) = listeners (snd s)
     \<and> activeElement (snd (press ''ArrowDown'' s)) =
          Some ([a, b, c] ! nat (if i = 2 then 0 else i + 1))"
proof -
  have ne: "menuItems (fst s) \<noteq> []" using assms(1) by simp
  have p: "press ''ArrowDown'' s = focusItem (i + 1) s"
    using assms(2,3) by (simp add: press_def menu_keydown_def handleMenuKeyDown_def Let_def split_def)
  show ?thesis
    unfolding p using focusItem_props [OF ne, of "i + 1"] assms(1,4,5)
    by (auto simp: Let_def)
qed

lemma dropdown_presses:
  assumes "live d" and "\<not> isOpen d" and "getMenuItems (menu d) w = [a, b, c]"
  shows "focusedIndex (fst (dropdown_open (d, w))) = - 1
     \<and> focusedIndex (fst (press ''ArrowDown'' (dropdown_open (d, w)))) = 0
     \<and> focusedIndex (fst ((press ''ArrowDown'' ^^ 2) (dropdown_open (d, w)))) = 1
     \<and> focusedIndex (fst ((press ''ArrowDown'' ^^ 3) (dropdown_open (d, w)))) = 2
     \<and> focusedIndex (fst ((press ''ArrowDown'' ^^ 4) (dropdown_open (d, w)))) = 0
     \<and> activeElement (snd ((press ''ArrowDown'' ^^ 3) (dropdown_open (d, w)))) = Some c
     \<and> activeElement (snd ((press ''ArrowDown'' ^^ 4) (dropdown_open (d, w)))) = Some a"
proof -
  let ?s0 = "dropdown_open (d, w)"
  let ?s1 = "press ''ArrowDown'' ?s0"
  let ?s2 = "press ''ArrowDown'' ?s1"
  let ?s3 = "press ''ArrowDown'' ?s2"
  let ?s4 = "press ''ArrowDown'' ?s3"
  note o = dropdown_open_props [OF assms]
  from o have l0: "(Node (menu (fst ?s0)), ''keydown'', HandleMenuKeyDown) \<in> set (listeners (snd ?s0))"
    by simp
  from o have m0: "menuItems (fst ?s0) = [a, b, c]" and f0: "focusedIndex (fst ?s0) = - 1"
    by simp_all
  note p1 = press_ArrowDown [OF m0 l0 f0]
  from p1 have m1: "menuItems (fst ?s1) = [a, b, c]" and f1: "focusedIndex (fst ?s1) = 0"
    and l1: "(Node (menu (fst ?s1)), ''keydown'', HandleMenuKeyDown) \<in> set (listeners (snd ?s1))"
    using l0 by simp_all
  note p2 = press_ArrowDown [OF m1 l1 f1]
  from p2 have m2: "menuItems (fst ?s2) = [a, b, c]" and f2: "focusedIndex (fst ?s2) = 1"
    and l2: "(Node (menu (fst ?s2)), ''keydown'', HandleMenuKeyDown) \<in> set (listeners (snd ?s2))"
    using l1 by simp_all
  note p3 = press_ArrowDown [OF m2 l2 f2]
  from p3 have m3: "menuItems (fst ?s3) = [a, b, c]" and f3: "focusedIndex (fst ?s3) = 2"
    and a3: "activeElement (snd ?s3) = Some c"
    and l3: "(Node (menu (fst ?s3)), ''keydown'', HandleMenuKeyDown) \<in> set (listeners (snd ?s3))"
    using l2 by simp_all
  note p4 = press_ArrowDown [OF m3 l3 f3]
  from p4 have f4: "focusedIndex (fst ?s4) = 0" and a4: "activeElement (snd ?s4) = Some a"
    by simp_all
  show ?thesis using f0 f1 f2 f3 f4 a3 a4 by (simp add: numeral_eq_Suc)
qed



lemma createDropdown_page:
  "descendants (snd (createDropdown t m opts w)) = descendants w"
  "n \<noteq> t \<Longrightarrow> n \<noteq> m \<Longrightarrow> attributes (snd (createDropdown t m opts w)) n = attributes w n"
  by (simp_all add: createDropdown_def Let_def split_def generateId_def updateTriggerAria_def
      addListener_def setAttribute_def setProperty_def removeProperty_def
      getDropdownMenuAttributes_def getDropdownTriggerAttributes_def)

lemma demo_dropdown_facts:
  "live (fst demo_dropdown)" "\<not> isOpen (fst demo_dropdown)"
  "menu (fst demo_dropdown) = 31"
  by (simp_all add: demo_dropdown_def createDropdown_def default_dropdown_options_def
      isBrowser_def menu_page_def demo_page_def Let_def split_def element_id_def
      getAttribute_def generateId_def updateTriggerAria_def addListener_def
      with_default_def)

lemma demo_dropdown_items:
  "getMenuItems (menu (fst demo_dropdown)) (snd demo_dropdown) = [32, 33, 34]"
proof -
  have d: "descendants (snd demo_dropdown) 31 = [32, 33, 34, 35]"
    by (simp add: demo_dropdown_def createDropdown_page menu_page_def)
  have a: "\<And>n. n \<in> {32, 33, 34, 35} \<Longrightarrow> attributes (snd demo_dropdown) n = attributes menu_page n"
    by (auto simp: demo_dropdown_def createDropdown_page)
  show ?thesis
    by (simp add: getMenuItems_def demo_dropdown_facts d a matchesMenuItem_def hasAttribute_def
        getAttribute_def menu_page_def)
qed


text \<open>
  C7, as the code has it. For a closed dropdown whose menu holds exactly three enabled
  items \<open>a\<close>, \<open>b\<close>, \<open>c\<close>: \<open>open()\<close> sets the focused index to \<open>-1\<close>; the first, second
  and third ArrowDown sent to the menu make it \<open>0\<close>, \<open>1\<close> and \<open>2\<close>, with the focus on
  \<open>c\<close> after the third; the fourth ArrowDown wraps it back to \<open>0\<close>, with the focus on \<open>a\<close>.
\<close>

theorem dropdown_arrow_down_cycle:
  assumes "live d" and "\<not> isOpen d" and "getMenuItems (menu d) w = [a, b, c]"
  shows "focusedIndex (fst (dropdown_open (d, w))) = - 1
     \<and> focusedIndex (fst (press ''ArrowDown'' (dropdown_open (d, w)))) = 0
     \<and> focusedIndex (fst ((press ''ArrowDown'' ^^ 2) (dropdown_open (d, w)))) = 1
     \<and> focusedIndex (fst ((press ''ArrowDown'' ^^ 3) (dropdown_open (d, w)))) = 2
     \<and> focusedIndex (fst ((press ''ArrowDown'' ^^ 4) (dropdown_open (d, w)))) = 0
     \<and> activeElement (snd ((press ''ArrowDown'' ^^ 3) (dropdown_open (d, w)))) = Some c
     \<and> activeElement (snd ((press ''ArrowDown'' ^^ 4) (dropdown_open (d, w)))) = Some a"
  using assms by (rule dropdown_presses)

theorem dropdown_arrow_down_cycle_witness:
  "live (fst demo_dropdown) \<and> \<not> isOpen (fst demo_dropdown)
   \<and> getMenuItems (menu (fst demo_dropdown)) (snd demo_dropdown) = [32, 33, 34]
   \<and> focusedIndex (fst (dropdown_open demo_dropdown)) = - 1
   \<and> focusedIndex (fst (press ''ArrowDown'' (dropdown_open demo_dropdown))) = 0
   \<and> focusedIndex (fst ((press ''ArrowDown'' ^^ 2) (dropdown_open demo_dropdown))) = 1
   \<and> focusedIndex (fst ((press ''ArrowDown'' ^^ 3) (dropdown_open demo_dropdown))) = 2
   \<and> focusedIndex (fst ((press ''ArrowDown'' ^^ 4) (dropdown_open demo_dropdown))) = 0"
proof -
  note h = demo_dropdown_facts(1,2) demo_dropdown_items
  have e: "dropdown_open (fst demo_dropdown, snd demo_dropdown) = dropdown_open demo_dropdown"
    by simp
  from dropdown_arrow_down_cycle [OF h] h show ?thesis unfolding e by blast
qed

text \<open>
  The claim as the specification words it has the index back at \<open>0\<close> on the third press.
  On the page with the three items it is \<open>2\<close> then.
\<close>

theorem dropdown_third_press_counterexample:
  "\<not> focusedIndex (fst ((press ''ArrowDown'' ^^ 3) (dropdown_open demo_dropdown))) = 0"
proof -
  have e: "dropdown_open (fst demo_dropdown, snd demo_dropdown) = dropdown_open demo_dropdown"
    by simp
  from dropdown_presses [OF demo_dropdown_facts(1,2) demo_dropdown_items]
  have "focusedIndex (fst ((press ''ArrowDown'' ^^ 3) (dropdown_open demo_dropdown))) = 2"
    unfolding e by blast
  then show ?thesis by simp
qed

section \<open>What the operations leave alone\<close>

text \<open>
  Five parts of the page decide the properties of the overlays below: whether there is a
  browser, the pending timers, the registered listeners, the recorded calls and the
  children of the body. The lemmas of this section say which of them each operation
  leaves as it is.
\<close>

lemma setAttribute_frame [simp]:
  "browser (setAttribute el k v w) = browser w"
  "timers (setAttribute el k v w) = timers w"
  "listeners (setAttribute el k v w) = listeners w"
  "calls (setAttribute el k v w) = calls w"
  "bodyChildren (setAttribute el k v w) = bodyChildren w"
  by (simp_all add: setAttribute_def)

lemma removeAttribute_frame [simp]:
  "browser (removeAttribute el k w) = browser w"
  "timers (removeAttribute el k w) = timers w"
  "listeners (removeAttribute el k w) = listeners w"
  "calls (removeAttribute el k w) = calls w"
  "bodyChildren (removeAttribute el k w) = bodyChildren w"
  by (simp_all add: removeAttribute_def)

lemma setProperty_frame [simp]:
  "browser (setProperty el p v w) = browser w"
  "timers (setProperty el p v w) = timers w"
  "listeners (setProperty el p v w) = listeners w"
  "calls (setProperty el p v w) = calls w"
  "bodyChildren (setProperty el p v w) = bodyChildren w"
  by (simp_all add: setProperty_def)

lemma removeProperty_frame [simp]:
  "browser (removeProperty el p w) = browser w"
  "timers (removeProperty el p w) = timers w"
  "listeners (removeProperty el p w) = listeners w"
  "calls (removeProperty el p w) = calls w"
  "bodyChildren (removeProperty el p w) = bodyChildren w"
  by (simp_all add: removeProperty_def)

lemma focus_frame [simp]:
  "browser (focus el w) = browser w"
  "timers (focus el w) = timers w"
  "listeners (focus el w) = listeners w"
  "calls (focus el w) = calls w"
  "bodyChildren (focus el w) = bodyChildren w"
  by (simp_all add: focus_def)

lemma appendChild_frame [simp]:
  "browser (appendChild el w) = browser w"
  "timers (appendChild el w) = timers w"
  "listeners (appendChild el w) = listeners w"
  "calls (appendChild el w) = calls w"
  by (simp_all add: appendChild_def)

lemma remove_node_frame [simp]:
  "browser (remove_node el w) = browser w"
  "timers (remove_node el w) = timers w"
  "listeners (remove_node el w) = listeners w"
  "calls (remove_node el w) = calls w"
  by (simp_all add: remove_node_def)

lemma requestAnimationFrame_frame [simp]:
  "browser (requestAnimationFrame t w) = browser w"
  "timers (requestAnimationFrame t w) = timers w"
  "listeners (requestAnimationFrame t w) = listeners w"
  "calls (requestAnimationFrame t w) = calls w"
  "bodyChildren (requestAnimationFrame t w) = bodyChildren w"
  by (simp_all add: requestAnimationFrame_def)

lemma setTimeout_frame [simp]:
  "browser (setTimeout t n w) = browser w"
  "listeners (setTimeout t n w) = listeners w"
  "calls (setTimeout t n w) = calls w"
  "bodyChildren (setTimeout t n w) = bodyChildren w"
  by (simp_all add: setTimeout_def)

lemma record_call_frame [simp]:
  "browser (record_call c w) = browser w"
  "timers (record_call c w) = timers w"
  "listeners (record_call c w) = listeners w"
  "bodyChildren (record_call c w) = bodyChildren w"
  by (simp_all add: record_call_def)

lemma run_cleanup_frame [simp]:
  "browser (run_cleanup l w) = browser w"
  "timers (run_cleanup l w) = timers w"
  "calls (run_cleanup l w) = calls w"
  "bodyChildren (run_cleanup l w) = bodyChildren w"
  by (simp_all add: run_cleanup_def)

lemma scrollTo_frame [simp]:
  "browser (scrollTo x y w) = browser w"
  "timers (scrollTo x y w) = timers w"
  "listeners (scrollTo x y w) = listeners w"
  "calls (scrollTo x y w) = calls w"
  "bodyChildren (scrollTo x y w) = bodyChildren w"
  by (simp_all add: scrollTo_def)

lemma primitive_effects [simp]:
  "timers (setTimeout t n w) = timers w @ [(n, t)]"
  "calls (record_call c w) = calls w @ [c]"
  "bodyChildren (appendChild el w) = removeAll el (bodyChildren w) @ [el]"
  "bodyChildren (remove_node el w) = removeAll el (bodyChildren w)"
  "listeners (run_cleanup l w) = removeAll l (listeners w)"
  "listeners (snd (addListener tg ty h w)) =
     (if (tg, ty, h) \<in> set (listeners w) then listeners w else listeners w @ [(tg, ty, h)])"
  by (simp_all add: setTimeout_def record_call_def appendChild_def remove_node_def
      run_cleanup_def addListener_def)

lemma setAttributes_frame [simp]:
  "browser (setAttributes el kvs w) = browser w"
  "timers (setAttributes el kvs w) = timers w"
  "listeners (setAttributes el kvs w) = listeners w"
  "calls (setAttributes el kvs w) = calls w"
  "bodyChildren (setAttributes el kvs w) = bodyChildren w"
  by (induction el kvs w rule: setAttributes.induct) simp_all

lemma setProperties_frame [simp]:
  "browser (setProperties el pvs w) = browser w"
  "timers (setProperties el pvs w) = timers w"
  "listeners (setProperties el pvs w) = listeners w"
  "calls (setProperties el pvs w) = calls w"
  "bodyChildren (setProperties el pvs w) = bodyChildren w"
  by (induction el pvs w rule: setProperties.induct) simp_all

lemma run_cleanups_frame [simp]:
  "browser (run_cleanups ls w) = browser w"
  "timers (run_cleanups ls w) = timers w"
  "calls (run_cleanups ls w) = calls w"
  "bodyChildren (run_cleanups ls w) = bodyChildren w"
  by (induction ls w rule: run_cleanups.induct) simp_all

lemma run_unlock_frame [simp]:
  "browser (run_unlock u w) = browser w"
  "timers (run_unlock u w) = timers w"
  "listeners (run_unlock u w) = listeners w"
  "calls (run_unlock u w) = calls w"
  "bodyChildren (run_unlock u w) = bodyChildren w"
  by (cases u; simp)+

lemma lockScroll_frame [simp]:
  "browser (snd (lockScroll w)) = browser w"
  "timers (snd (lockScroll w)) = timers w"
  "listeners (snd (lockScroll w)) = listeners w"
  "calls (snd (lockScroll w)) = calls w"
  "bodyChildren (snd (lockScroll w)) = bodyChildren w"
  "nextNode (snd (lockScroll w)) = nextNode w"
  by (simp_all add: lockScroll_def getDocument_def Let_def)

lemma addListener_frame [simp]:
  "browser (snd (addListener tg ty h w)) = browser w"
  "timers (snd (addListener tg ty h w)) = timers w"
  "calls (snd (addListener tg ty h w)) = calls w"
  "bodyChildren (snd (addListener tg ty h w)) = bodyChildren w"
  "fst (addListener tg ty h w) = (tg, ty, h)"
  by (simp_all add: addListener_def)

lemma createElement_frame [simp]:
  "browser (snd (createElement tag cls attrs styles w)) = browser w"
  "timers (snd (createElement tag cls attrs styles w)) = timers w"
  "listeners (snd (createElement tag cls attrs styles w)) = listeners w"
  "calls (snd (createElement tag cls attrs styles w)) = calls w"
  "bodyChildren (snd (createElement tag cls attrs styles w)) = bodyChildren w"
  "fst (createElement tag cls attrs styles w) = (if browser w then Some (nextNode w) else None)"
  by (simp_all add: createElement_def getDocument_def isBrowser_def Let_def)

lemma generateId_frame [simp]:
  "browser (snd (generateId p w)) = browser w"
  "timers (snd (generateId p w)) = timers w"
  "listeners (snd (generateId p w)) = listeners w"
  "calls (snd (generateId p w)) = calls w"
  "bodyChildren (snd (generateId p w)) = bodyChildren w"
  by (simp_all add: generateId_def)

lemma announce_frame [simp]:
  "browser (announce msg w) = browser w"
  "listeners (announce msg w) = listeners w"
  "calls (announce msg w) = calls w"
  "map snd (timers (announce msg w)) =
     map snd (timers w)
     @ (if browser w then [AnnounceText (nextNode w) msg, AnnounceRemove (nextNode w)] else [])"
  by (simp_all add: announce_def Let_def)

lemma run_announce_task_frame [simp]:
  "browser (run_announce_task t w) = browser w"
  "timers (run_announce_task t w) = timers w"
  "listeners (run_announce_task t w) = listeners w"
  "calls (run_announce_task t w) = calls w"
  by (cases t; simp)+

lemma activate_frame [simp]:
  "browser (snd (activate s)) = browser (snd s)"
  "timers (snd (activate s)) = timers (snd s)"
  "calls (snd (activate s)) = calls (snd s)"
  "bodyChildren (snd (activate s)) = bodyChildren (snd s)"
  by (simp_all add: activate_def getDocument_def Let_def split_def)

lemma deactivate_frame [simp]:
  "browser (snd (deactivate s)) = browser (snd s)"
  "timers (snd (deactivate s)) = timers (snd s)"
  "calls (snd (deactivate s)) = calls (snd s)"
  "bodyChildren (snd (deactivate s)) = bodyChildren (snd s)"
  by (simp_all add: deactivate_def Let_def split: return_focus.splits option.splits)

lemma trapInitialFocus_frame [simp]:
  "browser (snd (trapInitialFocus s)) = browser (snd s)"
  "timers (snd (trapInitialFocus s)) = timers (snd s)"
  "listeners (snd (trapInitialFocus s)) = listeners (snd s)"
  "calls (snd (trapInitialFocus s)) = calls (snd s)"
  "bodyChildren (snd (trapInitialFocus s)) = bodyChildren (snd s)"
  by (simp_all add: trapInitialFocus_def Let_def split: initial_focus.splits)

lemma handleKeyDown_frame [simp]:
  "browser (fst (snd (handleKeyDown e s))) = browser (snd s)"
  "timers (fst (snd (handleKeyDown e s))) = timers (snd s)"
  "listeners (fst (snd (handleKeyDown e s))) = listeners (snd s)"
  "calls (fst (snd (handleKeyDown e s))) = calls (snd s)"
  "bodyChildren (fst (snd (handleKeyDown e s))) = bodyChildren (snd s)"
  by (simp_all add: handleKeyDown_def getDocument_def Let_def split: option.splits)

lemma handleFocusOut_frame [simp]:
  "browser (fst (snd (handleFocusOut e s))) = browser (snd s)"
  "timers (fst (snd (handleFocusOut e s))) = timers (snd s)"
  "listeners (fst (snd (handleFocusOut e s))) = listeners (snd s)"
  "calls (fst (snd (handleFocusOut e s))) = calls (snd s)"
  "bodyChildren (fst (snd (handleFocusOut e s))) = bodyChildren (snd s)"
  by (simp_all add: handleFocusOut_def Let_def split: option.splits list.splits)

lemma backdrop_fade_frame [simp]:
  "browser (backdrop_fade c b s) = browser (snd s)"
  "timers (backdrop_fade c b s) = timers (snd s)"
  "listeners (backdrop_fade c b s) = listeners (snd s)"
  "calls (backdrop_fade c b s) = calls (snd s)"
  "bodyChildren (backdrop_fade c b s) = bodyChildren (snd s)"
  by (simp_all add: backdrop_fade_def Let_def split: option.splits)

section \<open>Modal: backdrop and open state\<close>

lemma with_trap_overlay [simp]:
  "live (fst (with_trap f s)) = live (fst s)"
  "isOpen (fst (with_trap f s)) = isOpen (fst s)"
  "onOpen (fst (with_trap f s)) = onOpen (fst s)"
  "onClose (fst (with_trap f s)) = onClose (fst s)"
  "animation (fst (with_trap f s)) = animation (fst s)"
  "cleanupListeners (fst (with_trap f s)) = cleanupListeners (fst s)"
  "element (fst (with_trap f s)) = element (fst s)"
  "backdrop (fst (with_trap f s)) = backdrop (fst s)"
  "closeOnBackdrop (fst (with_trap f s)) = closeOnBackdrop (fst s)"
  "closeOnEscape (fst (with_trap f s)) = closeOnEscape (fst s)"
  "trapFocus (fst (with_trap f s)) = trapFocus (fst s)"
  "backdropBlur (fst (with_trap f s)) = backdropBlur (fst s)"
  "backdropElement (fst (with_trap f s)) = backdropElement (fst s)"
  "unlockScroll (fst (with_trap f s)) = unlockScroll (fst s)"
  "duration (fst (with_trap f s)) = duration (fst s)"
  by (simp_all add: with_trap_def duration_def split: option.splits)

lemma with_trap_world [simp]:
  "(\<And>tw. browser (snd (f tw)) = browser (snd tw)) \<Longrightarrow>
     browser (snd (with_trap f s)) = browser (snd s)"
  "(\<And>tw. timers (snd (f tw)) = timers (snd tw)) \<Longrightarrow>
     timers (snd (with_trap f s)) = timers (snd s)"
  "(\<And>tw. calls (snd (f tw)) = calls (snd tw)) \<Longrightarrow>
     calls (snd (with_trap f s)) = calls (snd s)"
  "(\<And>tw. bodyChildren (snd (f tw)) = bodyChildren (snd tw)) \<Longrightarrow>
     bodyChildren (snd (with_trap f s)) = bodyChildren (snd s)"
  "(\<And>tw. listeners (snd (f tw)) = listeners (snd tw)) \<Longrightarrow>
     listeners (snd (with_trap f s)) = listeners (snd s)"
  by (simp_all add: with_trap_def split: option.splits)

lemma pendingClose_simps [simp]:
  "pendingClose (setTimeout t n w) = pendingClose w + (if t = ModalCloseResume then 1 else 0)"
  "pendingClose (announce msg w) = pendingClose w"
  "pendingClose (setAttribute el k v w) = pendingClose w"
  "pendingClose (removeAttribute el k w) = pendingClose w"
  "pendingClose (setProperty el p v w) = pendingClose w"
  "pendingClose (setAttributes el kvs w) = pendingClose w"
  "pendingClose (setProperties el pvs w) = pendingClose w"
  "pendingClose (appendChild el w) = pendingClose w"
  "pendingClose (remove_node el w) = pendingClose w"
  "pendingClose (requestAnimationFrame ft w) = pendingClose w"
  "pendingClose (record_call c w) = pendingClose w"
  "pendingClose (run_cleanups ls w) = pendingClose w"
  "pendingClose (run_unlock u w) = pendingClose w"
  "pendingClose (run_announce_task t w) = pendingClose w"
  "pendingClose (snd (lockScroll w)) = pendingClose w"
  "pendingClose (snd (addListener tg ty h w)) = pendingClose w"
  "pendingClose (snd (createElement tag cls attrs styles w)) = pendingClose w"
  "pendingClose (backdrop_fade colour blur s) = pendingClose (snd s)"
  "pendingClose (snd (with_trap activate s)) = pendingClose (snd s)"
  "pendingClose (snd (with_trap deactivate s)) = pendingClose (snd s)"
  "pendingClose (snd (with_trap trapInitialFocus s)) = pendingClose (snd s)"
  "pendingClose (fst (snd (handleKeyDown e tw))) = pendingClose (snd tw)"
  "pendingClose (fst (snd (handleFocusOut fe tw))) = pendingClose (snd tw)"
  by (simp_all add: pendingClose_def)

lemma modal_mountBackdrop_effect:
  "live (fst (modal_mountBackdrop s)) = live (fst s)"
  "isOpen (fst (modal_mountBackdrop s)) = isOpen (fst s)"
  "backdrop (fst (modal_mountBackdrop s)) = backdrop (fst s)"
  "trapFocus (fst (modal_mountBackdrop s)) = trapFocus (fst s)"
  "closeOnEscape (fst (modal_mountBackdrop s)) = closeOnEscape (fst s)"
  "focusTrap (fst (modal_mountBackdrop s)) = focusTrap (fst s)"
  "onOpen (fst (modal_mountBackdrop s)) = onOpen (fst s)"
  "browser (snd (modal_mountBackdrop s)) = browser (snd s)"
  "timers (snd (modal_mountBackdrop s)) = timers (snd s)"
  "calls (snd (modal_mountBackdrop s)) = calls (snd s)"
  "backdropElement (fst (modal_mountBackdrop s)) =
     (if backdrop (fst s) then (if browser (snd s) then Some (nextNode (snd s)) else None)
      else backdropElement (fst s))"
  by (simp_all add: modal_mountBackdrop_def modal_createBackdropElement_def Let_def)

lemma modal_animateIn_effect:
  "fst (modal_animateIn s) = fst s"
  "browser (snd (modal_animateIn s)) = browser (snd s)"
  "timers (snd (modal_animateIn s)) = timers (snd s)"
  "calls (snd (modal_animateIn s)) = calls (snd s)"
  "listeners (snd (modal_animateIn s)) = listeners (snd s)"
  by (simp_all add: modal_animateIn_def)

lemma modal_open_effect:
  assumes "live m" and "\<not> isOpen m"
  shows "live (fst (modal_open (m, w)))" "isOpen (fst (modal_open (m, w)))"
    "backdrop (fst (modal_open (m, w))) = backdrop m"
    "browser (snd (modal_open (m, w))) = browser w"
    "pendingClose (snd (modal_open (m, w))) = pendingClose w"
    "calls (snd (modal_open (m, w))) = calls w @ (if onOpen m then [OnOpen] else [])"
    "backdropElement (fst (modal_open (m, w))) =
       (if backdrop m then (if browser w then Some (nextNode w) else None) else backdropElement m)"
  using assms
  by (simp_all add: modal_open_def Let_def modal_mountBackdrop_effect modal_animateIn_effect
      pendingClose_def)


lemma modal_animateOut_effect:
  "fst (modal_animateOut s) = fst s"
  "browser (snd (modal_animateOut s)) = browser (snd s)"
  "pendingClose (snd (modal_animateOut s)) = Suc (pendingClose (snd s))"
  "calls (snd (modal_animateOut s)) = calls (snd s)"
  "bodyChildren (snd (modal_animateOut s)) = bodyChildren (snd s)"
  by (simp_all add: modal_animateOut_def Let_def pendingClose_def)

lemma modal_close_effect:
  assumes "live (fst s)"
  shows "live (fst (modal_close s))"
    "backdrop (fst (modal_close s)) = backdrop (fst s)"
    "backdropElement (fst (modal_close s)) = backdropElement (fst s)"
    "\<not> isOpen (fst (modal_close s))"
    "browser (snd (modal_close s)) = browser (snd s)"
    "pendingClose (snd (modal_close s)) = pendingClose (snd s) + (if isOpen (fst s) then 1 else 0)"
    "calls (snd (modal_close s)) = calls (snd s) @ [CalledClose]"
    "bodyChildren (snd (modal_close s)) = bodyChildren (snd s)"
  using assms
  by (simp_all add: modal_close_def Let_def modal_animateOut_effect)

lemma modal_close_resume_effect:
  "live (fst (modal_close_resume s)) = live (fst s)"
  "backdrop (fst (modal_close_resume s)) = backdrop (fst s)"
  "isOpen (fst (modal_close_resume s)) = isOpen (fst s)"
  "backdropElement (fst (modal_close_resume s)) = None"
  "browser (snd (modal_close_resume s)) = browser (snd s)"
  "pendingClose (snd (modal_close_resume s)) = pendingClose (snd s)"
  by (simp_all add: modal_close_resume_def Let_def pendingClose_def split: option.splits)

lemma modal_destroy_effect:
  "live (fst (modal_destroy s)) = live (fst s)"
  "backdrop (fst (modal_destroy s)) = backdrop (fst s)"
  "isOpen (fst (modal_destroy s)) = isOpen (fst s)"
  "backdropElement (fst (modal_destroy s)) = backdropElement (fst s)"
  "browser (snd (modal_destroy s)) = browser (snd s)"
  "pendingClose (snd (modal_destroy s)) = pendingClose (snd s)"
  by (simp_all add: modal_destroy_def Let_def pendingClose_def split: option.splits)

lemma modal_update_effect:
  "live (fst (modal_update s)) = live (fst s)"
  "backdrop (fst (modal_update s)) = backdrop (fst s)"
  "isOpen (fst (modal_update s)) = isOpen (fst s)"
  "backdropElement (fst (modal_update s)) = backdropElement (fst s)"
  "snd (modal_update s) = snd s"
  by (simp_all add: modal_update_def with_trap_def split: option.splits)

lemma modal_animateIn_frame_effect:
  "fst (modal_animateIn_frame s) = fst s"
  "browser (snd (modal_animateIn_frame s)) = browser (snd s)"
  "timers (snd (modal_animateIn_frame s)) = timers (snd s)"
  by (simp_all add: modal_animateIn_frame_def Let_def)

lemma modal_inv_open:
  assumes "modal_inv s" and "pendingClose (snd s) = 0"
  shows "modal_inv (modal_open s)"
proof (cases "isOpen (fst s)")
  case True
  then have "modal_open s = s" by (simp add: modal_open_def Let_def)
  with assms show ?thesis by simp
next
  case False
  with assms have l: "live (fst s)" by (simp add: modal_inv_def)
  from modal_open_effect [OF l False, of "snd s"] assms show ?thesis
    by (simp add: modal_inv_def)
qed

lemma modal_inv_close:
  assumes "modal_inv s"
  shows "modal_inv (modal_close s)"
proof -
  from assms have l: "live (fst s)" by (simp add: modal_inv_def)
  from modal_close_effect [OF l] assms show ?thesis
    by (cases "isOpen (fst s)"; cases "pendingClose (snd s) = 0"; simp add: modal_inv_def)
qed

lemma modal_inv_toggle:
  assumes "modal_inv s" and "\<not> isOpen (fst s) \<Longrightarrow> pendingClose (snd s) = 0"
  shows "modal_inv (modal_toggle s)"
  using assms by (auto simp: modal_toggle_def modal_inv_open modal_inv_close)

lemma modal_inv_destroy: "modal_inv s \<Longrightarrow> modal_inv (modal_destroy s)"
  by (simp add: modal_inv_def modal_destroy_effect del: not_None_eq)

lemma modal_inv_update: "modal_inv s \<Longrightarrow> modal_inv (modal_update s)"
  by (simp add: modal_inv_def modal_update_effect del: not_None_eq)



lemma count_list_remove_nth:
  assumes "i < length ts"
  shows "count_list (map snd (take i ts @ drop (Suc i) ts)) x
         = count_list (map snd ts) x - (if snd (ts ! i) = x then 1 else 0)"
proof -
  have "count_list (map snd ts) x
        = count_list (map snd (take i ts @ ts ! i # drop (Suc i) ts)) x"
    using assms by (simp add: id_take_nth_drop [symmetric])
  then show ?thesis by simp
qed

lemma modal_inv_timer_task:
  assumes "modal_inv s" and "t \<noteq> ModalCloseResume"
  shows "modal_inv (modal_timer_task t s)"
proof -
  have "modal_timer_task t s = (fst s, run_announce_task t (snd s))"
    using assms(2) by (cases t) simp_all
  with assms(1) show ?thesis by (simp add: modal_inv_def del: not_None_eq)
qed

lemma modal_inv_frame_task:
  assumes "modal_inv s"
  shows "modal_inv (modal_frame_task t s)"
  using assms
  by (cases t) (simp_all add: modal_inv_def modal_animateIn_frame_effect pendingClose_def
      del: not_None_eq)

lemma modal_inv_timer:
  assumes "modal_inv s"
  shows "modal_inv (modal_timer i s)"
proof (cases "i < length (timers (snd s))")
  case False
  with assms show ?thesis by (simp add: modal_timer_def)
next
  case True
  let ?w = "(snd s)\<lparr>timers := take i (timers (snd s)) @ drop (Suc i) (timers (snd s))\<rparr>"
  let ?t = "snd (timers (snd s) ! i)"
  have pc: "pendingClose ?w = pendingClose (snd s) - (if ?t = ModalCloseResume then 1 else 0)"
    using count_list_remove_nth [OF True] by (simp add: pendingClose_def)
  show ?thesis
  proof (cases "?t = ModalCloseResume")
    case False
    with pc assms have "modal_inv (fst s, ?w)" by (simp add: modal_inv_def del: not_None_eq)
    from modal_inv_timer_task [OF this False] True show ?thesis by (simp add: modal_timer_def)
  next
    case t: True
    have "ModalCloseResume \<in> set (map snd (timers (snd s)))"
      using True t by (metis nth_map length_map nth_mem)
    then have "count_list (map snd (timers (snd s))) ModalCloseResume \<noteq> 0"
      by (simp only: count_list_0_iff not_not)
    then have "pendingClose (snd s) > 0" by (simp add: pendingClose_def)
    with assms have one: "pendingClose (snd s) = 1" and no: "\<not> isOpen (fst s)"
      by (auto simp: modal_inv_def split: if_splits)
    from pc t one have z: "pendingClose ?w = 0" by simp
    have "modal_inv (modal_close_resume (fst s, ?w))"
      using assms no z by (simp add: modal_inv_def modal_close_resume_effect)
    with True t show ?thesis by (simp add: modal_timer_def)
  qed
qed

lemma modal_inv_frame:
  assumes "modal_inv s"
  shows "modal_inv (modal_frame s)"
proof -
  have "\<And>s. modal_inv s \<Longrightarrow> modal_inv (fold modal_frame_task ts s)" for ts
    by (induction ts) (simp_all add: modal_inv_frame_task)
  moreover have "modal_inv (fst s, (snd s)\<lparr>frames := []\<rparr>)"
    using assms by (simp add: modal_inv_def pendingClose_def del: not_None_eq)
  ultimately show ?thesis by (simp add: modal_frame_def)
qed

lemma modal_inv_trap_state:
  "modal_inv (m\<lparr>focusTrap := t\<rparr>, w) = modal_inv (m, w)"
  by (simp add: modal_inv_def)

lemma modal_inv_callbacks:
  "modal_inv s \<Longrightarrow> modal_inv (fold modal_callback cbs s)"
proof (induction cbs arbitrary: s)
  case Nil
  then show ?case by simp
next
  case (Cons c cbs)
  then show ?case by (cases c) (simp add: modal_inv_close)
qed

lemma modal_inv_trap_keydown:
  assumes "modal_inv s"
  shows "modal_inv (fst (modal_trap_keydown e s), fst (snd (modal_trap_keydown e s)))"
proof (cases "focusTrap (fst s)")
  case None
  with assms show ?thesis by (simp add: modal_trap_keydown_def)
next
  case (Some t)
  obtain t1 w1 e1 cbs where h: "handleKeyDown e (t, snd s) = (t1, w1, e1, cbs)"
    by (cases "handleKeyDown e (t, snd s)")
  have "browser w1 = browser (snd s)" "pendingClose w1 = pendingClose (snd s)"
    using handleKeyDown_frame(1) [of e "(t, snd s)"] pendingClose_simps(22) [of e "(t, snd s)"] h
    by simp_all
  with assms have "modal_inv ((fst s)\<lparr>focusTrap := Some t1\<rparr>, w1)"
    by (simp add: modal_inv_def del: not_None_eq)
  from modal_inv_callbacks [OF this, of cbs] Some h show ?thesis
    by (simp add: modal_trap_keydown_def Let_def)
qed

lemma modal_inv_escape_key:
  assumes "modal_inv s"
  shows "modal_inv (fst (modal_handleEscapeKey e s), fst (snd (modal_handleEscapeKey e s)))"
  using assms modal_inv_close [OF assms] by (simp add: modal_handleEscapeKey_def)

lemma modal_inv_keydown_listener:
  assumes "modal_inv (fst r, fst (snd r))"
  shows "modal_inv (fst (modal_keydown_listener l r), fst (snd (modal_keydown_listener l r)))"
proof -
  obtain m w e where r: "r = (m, w, e)" by (cases r)
  have "modal_inv (fst (modal_keydown_handler h e (m, w)), fst (snd (modal_keydown_handler h e (m, w))))"
    if "modal_inv (m, w)" for h
    using that modal_inv_trap_keydown [OF that, of e] modal_inv_escape_key [OF that, of e]
    by (cases h) simp_all
  with assms r show ?thesis by (simp add: modal_keydown_listener_def)
qed

lemma modal_inv_keydown:
  assumes "modal_inv s"
  shows "modal_inv (fst (modal_keydown e s), fst (snd (modal_keydown e s)))"
proof -
  have "\<And>r. modal_inv (fst r, fst (snd r)) \<Longrightarrow>
          modal_inv (fst (fold modal_keydown_listener ls r), fst (snd (fold modal_keydown_listener ls r)))"
    for ls
    by (induction ls) (simp_all add: modal_inv_keydown_listener)
  from this [of "(fst s, snd s, e)"] assms show ?thesis by (simp add: modal_keydown_def)
qed

lemma modal_inv_click:
  assumes "modal_inv s"
  shows "modal_inv (modal_click e s)"
proof -
  have one: "\<And>s l. modal_inv s \<Longrightarrow> modal_inv (modal_click_listener e l s)"
    by (simp add: modal_click_listener_def modal_handleBackdropClick_def modal_inv_close)
  have "\<And>s. modal_inv s \<Longrightarrow> modal_inv (fold (modal_click_listener e) ls s)" for ls
    by (induction ls) (simp_all add: one)
  with assms show ?thesis by (simp add: modal_click_def split: option.splits)
qed

lemma modal_inv_focusout:
  assumes "modal_inv s"
  shows "modal_inv (modal_focusout e s)"
proof -
  have "modal_inv (modal_trap_focusout e s)"
  proof (cases "focusTrap (fst s)")
    case None
    with assms show ?thesis by (simp add: modal_trap_focusout_def)
  next
    case (Some t)
    obtain t1 w1 e1 where h: "handleFocusOut e (t, snd s) = (t1, w1, e1)"
      by (cases "handleFocusOut e (t, snd s)")
    have "browser w1 = browser (snd s)" "pendingClose w1 = pendingClose (snd s)"
      using handleFocusOut_frame(1) [of e "(t, snd s)"] pendingClose_simps(23) [of e "(t, snd s)"] h
      by simp_all
    with assms Some h show ?thesis
      by (simp add: modal_trap_focusout_def modal_inv_def del: not_None_eq)
  qed
  with assms show ?thesis by (simp add: modal_focusout_def split: option.splits)
qed

lemma modal_inv_step:
  assumes "modal_inv s" and "enters_open op s \<Longrightarrow> pendingClose (snd s) = 0"
  shows "modal_inv (modal_step op s)"
proof (cases op)
  case Open
  with assms show ?thesis by (simp add: modal_inv_open)
next
  case Close
  with assms show ?thesis by (simp add: modal_inv_close)
next
  case Toggle
  with assms show ?thesis by (simp add: modal_inv_toggle)
next
  case Update
  with assms show ?thesis by (simp add: modal_inv_update)
next
  case Destroy
  with assms show ?thesis by (simp add: modal_inv_destroy)
next
  case (Timer i)
  with assms show ?thesis by (simp add: modal_inv_timer)
next
  case Frame
  with assms show ?thesis by (simp add: modal_inv_frame)
next
  case (KeyDown e)
  with modal_inv_keydown [OF assms(1), of e] show ?thesis by (simp add: split_def)
next
  case (Click e)
  with assms show ?thesis by (simp add: modal_inv_click)
next
  case (FocusOut e)
  with assms show ?thesis by (simp add: modal_inv_focusout)
qed

lemma modal_inv_run:
  assumes "modal_inv s" and "sequential ops s"
  shows "modal_inv (fold modal_step ops s)"
  using assms
proof (induction ops arbitrary: s)
  case Nil
  then show ?case by simp
next
  case (Cons op ops)
  from Cons.prems have "modal_inv (modal_step op s)"
    by (intro modal_inv_step) (auto split: if_splits)
  with Cons show ?case by simp
qed

lemma createModal_effect:
  assumes "browser w"
  shows "live (fst (createModal el options w))"
    "\<not> isOpen (fst (createModal el options w))"
    "backdropElement (fst (createModal el options w)) = None"
    "cleanupListeners (fst (createModal el options w)) = []"
    "backdrop (fst (createModal el options w)) = with_default True (opt_backdrop options)"
    "closeOnBackdrop (fst (createModal el options w)) = with_default True (opt_closeOnBackdrop options)"
    "closeOnEscape (fst (createModal el options w)) = with_default True (opt_closeOnEscape options)"
    "trapFocus (fst (createModal el options w)) = with_default True (opt_trapFocus options)"
    "onOpen (fst (createModal el options w)) = opt_onOpen options"
    "element (fst (createModal el options w)) = el"
    "focusTrap (fst (createModal el options w)) =
       (if with_default True (opt_trapFocus options)
        then Some (createFocusTrap el InitialFirst ReturnPrevious
                     (if with_default True (opt_closeOnEscape options)
                      then Some CloseCallback else None))
        else None)"
    "browser (snd (createModal el options w))"
    "timers (snd (createModal el options w)) = timers w"
    "listeners (snd (createModal el options w)) = listeners w"
    "calls (snd (createModal el options w)) = calls w"
    "bodyChildren (snd (createModal el options w)) = bodyChildren w"
  using assms
  by (simp_all add: createModal_def isBrowser_def Let_def split: option.splits)

lemma createModal_inv:
  assumes "browser w" and "with_default True (opt_backdrop options)" and "pendingClose w = 0"
  shows "modal_inv (createModal el options w)"
  using assms createModal_effect [OF assms(1), of el options]
  by (simp add: modal_inv_def pendingClose_def)

text \<open>
  C2, as the code has it. For a modal created in a browser with the backdrop enabled, and
  used so that \<open>open()\<close> is not entered while a \<open>close()\<close> is waiting for its timer: after
  any sequence of operations, timers, frames and events, if no \<open>close()\<close> is waiting, the
  backdrop element is non-null exactly when \<open>isOpen\<close> is true; and if one is waiting, that
  is, between the call of \<open>close()\<close> and its timer, \<open>isOpen\<close> is false and the backdrop
  element is still held.
\<close>

theorem modal_backdrop_iff_open:
  assumes "browser w" and "with_default True (opt_backdrop options)" and "pendingClose w = 0"
    and "sequential ops (createModal el options w)"
    and "s = fold modal_step ops (createModal el options w)"
  shows "if pendingClose (snd s) = 0 then (backdropElement (fst s) \<noteq> None) = isOpen (fst s)
         else \<not> isOpen (fst s) \<and> backdropElement (fst s) \<noteq> None"
proof -
  from modal_inv_run [OF createModal_inv [OF assms(1-3)] assms(4)] assms(5)
  have "modal_inv s" by simp
  then show ?thesis by (simp add: modal_inv_def del: not_None_eq)
qed

text \<open>
  C2 as the specification words it fails between the call of \<open>close()\<close> and its timer:
  the modal with the default options, opened and then closed, has \<open>isOpen\<close> false and
  still holds its backdrop element.
\<close>

theorem modal_closing_holds_backdrop_counterexample:
  "backdrop (fst (fold modal_step [Open, Close] demo_modal))
   \<and> \<not> isOpen (fst (fold modal_step [Open, Close] demo_modal))
   \<and> backdropElement (fst (fold modal_step [Open, Close] demo_modal)) = Some 10"
  by code_simp

text \<open>
  Open, close, let the exit timer fire, open again, destroy: no \<open>close()\<close> is pending at
  the end, and the modal is open and holds a backdrop element. Open, then close: a
  \<open>close()\<close> is pending, the modal is not open and still holds its backdrop element.
\<close>

theorem modal_backdrop_iff_open_witness:
  "browser demo_page \<and> pendingClose demo_page = 0
   \<and> sequential [Open, Close, Timer 2, Open, Destroy] demo_modal
   \<and> pendingClose (snd (fold modal_step [Open, Close, Timer 2, Open, Destroy] demo_modal)) = 0
   \<and> isOpen (fst (fold modal_step [Open, Close, Timer 2, Open, Destroy] demo_modal))
   \<and> backdropElement (fst (fold modal_step [Open, Close, Timer 2, Open, Destroy] demo_modal))
        \<noteq> None
   \<and> sequential [Open, Close] demo_modal
   \<and> pendingClose (snd (fold modal_step [Open, Close] demo_modal)) = 1
   \<and> \<not> isOpen (fst (fold modal_step [Open, Close] demo_modal))
   \<and> backdropElement (fst (fold modal_step [Open, Close] demo_modal)) \<noteq> None"
proof -
  let ?a = "[Open, Close, Timer 2, Open, Destroy]"
  let ?b = "[Open, Close]"
  have h: "browser demo_page" "with_default True (opt_backdrop default_modal_options)"
    "pendingClose demo_page = 0"
    by (simp_all add: demo_page_def default_modal_options_def with_default_def pendingClose_def)
  have sa: "sequential ?a (createModal 0 default_modal_options demo_page)"
    unfolding demo_modal_def [symmetric] by code_simp
  have sb: "sequential ?b (createModal 0 default_modal_options demo_page)"
    unfolding demo_modal_def [symmetric] by code_simp
  have pa: "pendingClose (snd (fold modal_step ?a demo_modal)) = 0" by code_simp
  have pb: "pendingClose (snd (fold modal_step ?b demo_modal)) = 1" by code_simp
  have oa: "isOpen (fst (fold modal_step ?a demo_modal))" by code_simp
  note ta = modal_backdrop_iff_open [OF h sa refl]
  note tb = modal_backdrop_iff_open [OF h sb refl]
  show ?thesis using ta tb pa pb oa sa sb h(1,3)
    by (simp add: demo_modal_def del: not_None_eq fold_simps)
qed

section \<open>Modal: Escape\<close>

lemma activate_effect:
  assumes "\<not> isActive t" and "browser w"
  shows "isActive (fst (activate (t, w)))"
    "onEscape (fst (activate (t, w))) = onEscape t"
    "container (fst (activate (t, w))) = container t"
    "listeners (snd (activate (t, w))) =
       listeners (snd (addListener (Node (container t)) ''focusout'' TrapHandleFocusOut
         (snd (addListener Document ''keydown'' TrapHandleKeyDown w))))"
  using assms
  by (simp_all add: activate_def getDocument_def isBrowser_def Let_def split_def
      updateElements_def addListener_def requestAnimationFrame_def)

lemma modal_mountBackdrop_listeners:
  "listeners (snd (modal_mountBackdrop s)) =
     (if backdrop (fst s) \<and> browser (snd s) \<and> closeOnBackdrop (fst s)
      then listeners (snd (addListener (Node (nextNode (snd s))) ''click'' HandleBackdropClick (snd s)))
      else listeners (snd s))"
  by (simp add: modal_mountBackdrop_def modal_createBackdropElement_def Let_def addListener_def
      appendChild_def)

lemma modal_mountBackdrop_cleanup:
  "cleanupListeners (fst (modal_mountBackdrop s)) =
     cleanupListeners (fst s)
     @ (if backdrop (fst s) \<and> browser (snd s) \<and> closeOnBackdrop (fst s)
        then [(Node (nextNode (snd s)), ''click'', HandleBackdropClick)] else [])"
  by (simp add: modal_mountBackdrop_def modal_createBackdropElement_def Let_def)

lemma modal_open_trap:
  assumes "live m" and "\<not> isOpen m" and "browser w" and "trapFocus m"
    and "focusTrap m = Some t" and "\<not> isActive t" and "listeners w = []"
  shows "listeners (snd (modal_open (m, w))) =
           (if backdrop m \<and> closeOnBackdrop m
            then [(Node (nextNode w), ''click'', HandleBackdropClick)] else [])
           @ [(Document, ''keydown'', TrapHandleKeyDown),
              (Node (container t), ''focusout'', TrapHandleFocusOut)]"
    "\<exists>t'. focusTrap (fst (modal_open (m, w))) = Some t' \<and> isActive t'
          \<and> onEscape t' = onEscape t"
    "live (fst (modal_open (m, w)))"
    "isOpen (fst (modal_open (m, w)))"
    "cleanupListeners (fst (modal_open (m, w))) =
       cleanupListeners m
       @ (if backdrop m \<and> closeOnBackdrop m
          then [(Node (nextNode w), ''click'', HandleBackdropClick)] else [])"
  using assms
  by (simp_all add: modal_open_def Let_def modal_mountBackdrop_effect modal_animateIn_effect
      modal_mountBackdrop_listeners with_trap_def activate_effect modal_mountBackdrop_cleanup)

lemma handleKeyDown_escape:
  assumes "isActive t" and "key e = ''Escape''" and "onEscape t = Some c"
  shows "handleKeyDown e (t, w) = (t, w, preventDefault e, [c])"
  using assms by (simp add: handleKeyDown_def)

lemma modal_keydown_trap_only:
  assumes "live m" and "focusTrap m = Some t" and "isActive t"
    and "onEscape t = Some CloseCallback" and "key e = ''Escape''"
    and "document_keydown w = [(Document, ''keydown'', TrapHandleKeyDown)]"
  shows "calls (fst (snd (modal_keydown e (m, w)))) = calls w @ [CalledClose]"
proof -
  have "(Document, ''keydown'', TrapHandleKeyDown) \<in> set (document_keydown w)"
    by (simp add: assms(6))
  then have mem: "(Document, ''keydown'', TrapHandleKeyDown) \<in> set (listeners w)"
    by (simp add: document_keydown_def)
  have "modal_keydown e (m, w) = modal_trap_keydown e (m, w)"
    using mem assms(6)
    by (simp add: modal_keydown_def document_keydown_def [symmetric] modal_keydown_listener_def)
  also have "\<dots> = (fst (modal_close (m, w)), snd (modal_close (m, w)), preventDefault e)"
  proof -
    have same: "m\<lparr>focusTrap := Some t\<rparr> = m" by (simp add: assms(2) [symmetric])
    show ?thesis
      using assms(2) handleKeyDown_escape [OF assms(3,5,4), of w]
      by (simp add: modal_trap_keydown_def same Let_def)
  qed
  finally show ?thesis using modal_close_effect(7) [of "(m, w)"] assms(1) by simp
qed

lemma document_keydown_cong:
  "listeners w' = listeners w \<Longrightarrow> document_keydown w' = document_keydown w"
  by (simp add: document_keydown_def)

lemma document_keydown_cleanups:
  assumes "(Document, ''keydown'', TrapHandleKeyDown) \<notin> set ls"
    and "document_keydown w = [(Document, ''keydown'', TrapHandleKeyDown)]"
  shows "document_keydown (run_cleanups ls w) = [(Document, ''keydown'', TrapHandleKeyDown)]"
  using assms
proof (induction ls arbitrary: w)
  case Nil
  then show ?case by simp
next
  case (Cons l ls)
  have "filter P (removeAll l xs) = removeAll l (filter P xs)" for P and xs :: "listener list"
    by (induction xs) auto
  then have "document_keydown (run_cleanup l w) = removeAll l (document_keydown w)"
    by (simp add: document_keydown_def)
  with Cons.prems have "document_keydown (run_cleanup l w) = [(Document, ''keydown'', TrapHandleKeyDown)]"
    by auto
  with Cons show ?case by simp
qed

lemma escape_ready_open: "escape_ready s \<Longrightarrow> modal_open s = s"
  by (simp add: escape_ready_def modal_open_def Let_def)

lemma escape_ready_update: "escape_ready s \<Longrightarrow> escape_ready (modal_update s)"
  by (auto simp: escape_ready_def modal_update_def with_trap_def updateElements_def
      split: option.splits)

lemma escape_ready_frame_task:
  assumes "escape_ready s"
  shows "escape_ready (modal_frame_task t s)"
proof (cases t)
  case TrapInitialFocus
  have "fst (trapInitialFocus tw) = fst tw" for tw
    by (simp add: trapInitialFocus_def Let_def split: initial_focus.splits)
  with assms TrapInitialFocus show ?thesis
    by (auto simp: escape_ready_def with_trap_def document_keydown_def split: option.splits)
next
  case ModalAnimateInFrame
  with assms show ?thesis
    by (simp add: escape_ready_def modal_animateIn_frame_def Let_def document_keydown_def)
qed (use assms in simp_all)

lemma escape_ready_frame:
  assumes "escape_ready s"
  shows "escape_ready (modal_frame s)"
proof -
  have "\<And>s. escape_ready s \<Longrightarrow> escape_ready (fold modal_frame_task ts s)" for ts
    by (induction ts) (simp_all add: escape_ready_frame_task)
  moreover have "escape_ready (fst s, (snd s)\<lparr>frames := []\<rparr>)"
    using assms by (simp add: escape_ready_def document_keydown_def)
  ultimately show ?thesis by (simp add: modal_frame_def)
qed

lemma escape_ready_close_resume:
  assumes "escape_ready s"
  shows "escape_ready (modal_close_resume s)"
proof -
  let ?w3 = "case backdropElement (fst s) of
               None \<Rightarrow> setAttribute (element (fst s)) ''aria-hidden'' ''true''
                         (setProperty (element (fst s)) ''display'' ''none'' (snd s))
             | Some b \<Rightarrow> remove_node b (setAttribute (element (fst s)) ''aria-hidden'' ''true''
                         (setProperty (element (fst s)) ''display'' ''none'' (snd s)))"
  have "listeners ?w3 = listeners (snd s)" by (simp split: option.splits)
  then have "document_keydown ?w3 = [(Document, ''keydown'', TrapHandleKeyDown)]"
    using assms by (simp add: document_keydown_def escape_ready_def)
  from document_keydown_cleanups [OF _ this, of "cleanupListeners (fst s)"] assms
  have "document_keydown (run_cleanups (cleanupListeners (fst s)) ?w3)
          = [(Document, ''keydown'', TrapHandleKeyDown)]"
    by (simp add: escape_ready_def)
  moreover have "document_keydown (snd (modal_close_resume s))
                 = document_keydown (run_cleanups (cleanupListeners (fst s)) ?w3)"
    by (rule document_keydown_cong) (simp add: modal_close_resume_def Let_def split: option.splits)
  ultimately show ?thesis using assms
    by (simp add: escape_ready_def) (simp add: modal_close_resume_def Let_def)
qed

lemma escape_ready_timer:
  assumes "escape_ready s"
  shows "escape_ready (modal_timer i s)"
proof (cases "i < length (timers (snd s))")
  case False
  with assms show ?thesis by (simp add: modal_timer_def)
next
  case True
  let ?s = "(fst s, (snd s)\<lparr>timers := take i (timers (snd s)) @ drop (Suc i) (timers (snd s))\<rparr>)"
  have r: "escape_ready ?s" using assms by (simp add: escape_ready_def document_keydown_def)
  have "escape_ready (modal_timer_task t ?s)" for t
  proof (cases "t = ModalCloseResume")
    case True
    with escape_ready_close_resume [OF r] show ?thesis by simp
  next
    case False
    then have "modal_timer_task t ?s = (fst ?s, run_announce_task t (snd ?s))"
      by (cases t) simp_all
    with r show ?thesis by (simp add: escape_ready_def document_keydown_def)
  qed
  with True show ?thesis by (simp add: modal_timer_def)
qed

lemma escape_ready_focusout:
  assumes "escape_ready s"
  shows "escape_ready (modal_focusout e s)"
proof -
  have "fst (handleFocusOut e tw) = fst tw" for tw
    by (simp add: handleFocusOut_def Let_def split: option.splits)
  moreover have "listeners (fst (snd (handleFocusOut e tw))) = listeners (snd tw)" for tw
    by simp
  ultimately have "escape_ready (modal_trap_focusout e s)"
    using assms
    by (auto simp: escape_ready_def modal_trap_focusout_def document_keydown_def split_def
        split: option.splits)
  with assms show ?thesis by (simp add: modal_focusout_def split: option.splits)
qed

lemma handleKeyDown_other:
  assumes "isActive t" and "key e \<noteq> ''Escape''"
  shows "snd (snd (snd (handleKeyDown e (t, w)))) = []"
    "isActive (fst (handleKeyDown e (t, w)))"
    "onEscape (fst (handleKeyDown e (t, w))) = onEscape t"
  using assms
  by (simp_all add: handleKeyDown_def updateElements_def getDocument_def Let_def
      split: option.splits)

lemma escape_ready_keydown:
  assumes "escape_ready s" and "key e \<noteq> ''Escape''"
  shows "escape_ready (fst (modal_keydown e s), fst (snd (modal_keydown e s)))"
proof -
  from assms(1) obtain t where t: "focusTrap (fst s) = Some t" "isActive t"
    "onEscape t = Some CloseCallback"
    by (auto simp: escape_ready_def split: option.splits)
  from assms(1) have dk: "document_keydown (snd s) = [(Document, ''keydown'', TrapHandleKeyDown)]"
    by (simp add: escape_ready_def)
  then have "(Document, ''keydown'', TrapHandleKeyDown) \<in> set (document_keydown (snd s))"
    by simp
  then have mem: "(Document, ''keydown'', TrapHandleKeyDown) \<in> set (listeners (snd s))"
    by (simp add: document_keydown_def)
  have k: "modal_keydown e s = modal_trap_keydown e (fst s, snd s)"
    using mem dk by (simp add: modal_keydown_def document_keydown_def [symmetric]
        modal_keydown_listener_def)
  obtain t1 w1 e1 cbs where h: "handleKeyDown e (t, snd s) = (t1, w1, e1, cbs)"
    by (cases "handleKeyDown e (t, snd s)")
  from handleKeyDown_other [OF t(2) assms(2), of "snd s"] h t(3)
  have c: "cbs = []" "isActive t1" "onEscape t1 = Some CloseCallback" by simp_all
  have l: "listeners w1 = listeners (snd s)"
    using handleKeyDown_frame(3) [of e "(t, snd s)"] h by simp
  have "modal_trap_keydown e (fst s, snd s) = ((fst s)\<lparr>focusTrap := Some t1\<rparr>, w1, e1)"
    using t(1) h c(1) by (simp add: modal_trap_keydown_def)
  with k assms(1) c l show ?thesis
    by (simp add: escape_ready_def document_keydown_def)
qed

lemma escape_ready_step:
  assumes "escape_ready s" and "quiet op"
  shows "escape_ready (modal_step op s)"
proof (cases op)
  case (KeyDown e)
  with assms escape_ready_keydown [OF assms(1), of e] show ?thesis by (simp add: split_def)
qed (use assms in \<open>simp_all add: escape_ready_open escape_ready_update escape_ready_frame
      escape_ready_timer escape_ready_focusout\<close>)

lemma escape_ready_run:
  assumes "escape_ready s" and "list_all quiet ops"
  shows "escape_ready (fold modal_step ops s)"
  using assms by (induction ops arbitrary: s) (simp_all add: escape_ready_step)


text \<open>
  C6. For a modal created in a browser with \<open>trapFocus\<close> and \<open>closeOnEscape\<close> on (given or
  by default), on a page where no listener is registered yet: \<open>open()\<close> does not register
  the document-level Escape listener of the modal. While the modal stays open, that is,
  after \<open>open()\<close> and any steps that neither close nor destroy it, the only keydown
  listener on the document is the one of the focus trap, and an Escape keydown makes
  exactly one more call of \<open>close()\<close>.
\<close>

theorem modal_escape_routed_once:
  assumes "browser w" and "listeners w = []"
    and "with_default True (opt_trapFocus options)"
    and "with_default True (opt_closeOnEscape options)"
    and "key e = ''Escape''"
    and "list_all quiet ops"
    and "s = fold modal_step ops (modal_open (createModal el options w))"
  shows "(Document, ''keydown'', HandleEscapeKey)
           \<notin> set (listeners (snd (modal_open (createModal el options w))))
     \<and> document_keydown (snd s) = [(Document, ''keydown'', TrapHandleKeyDown)]
     \<and> isOpen (fst s)
     \<and> count_list (calls (fst (snd (modal_keydown e s)))) CalledClose
        = Suc (count_list (calls (snd s)) CalledClose)"
proof -
  let ?m = "fst (createModal el options w)"
  let ?w = "snd (createModal el options w)"
  let ?t = "createFocusTrap el InitialFirst ReturnPrevious (Some CloseCallback)"
  note c = createModal_effect [OF assms(1), of el options]
  have ft: "focusTrap ?m = Some ?t" using c(11) assms(3,4) by simp
  have na: "\<not> isActive ?t" and ct: "container ?t = el" and oe: "onEscape ?t = Some CloseCallback"
    by (simp_all add: createFocusTrap_def)
  have tf: "trapFocus ?m" using c(8) assms(3) by simp
  have ls: "listeners ?w = []" using c(14) assms(2) by simp
  note o = modal_open_trap [OF c(1) c(2) c(12) tf ft na ls, simplified]
  let ?s1 = "modal_open (createModal el options w)"
  have l1: "listeners (snd ?s1) =
           (if backdrop ?m \<and> closeOnBackdrop ?m
            then [(Node (nextNode ?w), ''click'', HandleBackdropClick)] else [])
           @ [(Document, ''keydown'', TrapHandleKeyDown), (Node el, ''focusout'', TrapHandleFocusOut)]"
    using o(1) ct by simp
  have a: "(Document, ''keydown'', HandleEscapeKey) \<notin> set (listeners (snd ?s1))"
    by (simp add: l1)
  have f: "document_keydown (snd ?s1) = [(Document, ''keydown'', TrapHandleKeyDown)]"
    by (simp add: l1 document_keydown_def)
  from o(2) oe obtain t' where t': "focusTrap (fst ?s1) = Some t'" "isActive t'"
    "onEscape t' = Some CloseCallback" by auto
  have cl: "(Document, ''keydown'', TrapHandleKeyDown) \<notin> set (cleanupListeners (fst ?s1))"
    using o(5) c(4) by simp
  have "escape_ready ?s1"
    using o(3,4) t' f cl by (simp add: escape_ready_def)
  from escape_ready_run [OF this assms(6)] assms(7) have r: "escape_ready s" by simp
  then obtain t2 where t2: "focusTrap (fst s) = Some t2" "isActive t2"
    "onEscape t2 = Some CloseCallback"
    by (auto simp: escape_ready_def split: option.splits)
  from r have lv: "live (fst s)" and io: "isOpen (fst s)"
    and dk: "document_keydown (snd s) = [(Document, ''keydown'', TrapHandleKeyDown)]"
    by (simp_all add: escape_ready_def)
  from modal_keydown_trap_only [OF _ t2 assms(5), of "snd s"] lv dk
  have "calls (fst (snd (modal_keydown e s))) = calls (snd s) @ [CalledClose]" by simp
  then have k: "count_list (calls (fst (snd (modal_keydown e s)))) CalledClose
        = Suc (count_list (calls (snd s)) CalledClose)" by simp
  from a dk io k show ?thesis by (intro conjI)
qed

text \<open>
  The modal with the default options on the concrete page: after \<open>open()\<close>, a frame, a
  Tab keydown and \<open>update()\<close>, no \<open>close()\<close> has been called; an Escape keydown calls it
  once.
\<close>

theorem modal_escape_routed_once_witness:
  "browser demo_page \<and> listeners demo_page = []
   \<and> list_all quiet [Frame, KeyDown (tab_event False), Update]
   \<and> (Document, ''keydown'', HandleEscapeKey) \<notin> set (listeners (snd (modal_open demo_modal)))
   \<and> count_list (calls (snd (fold modal_step [Frame, KeyDown (tab_event False), Update]
        (modal_open demo_modal)))) CalledClose = 0
   \<and> count_list (calls (fst (snd (modal_keydown (key_event ''Escape'')
        (fold modal_step [Frame, KeyDown (tab_event False), Update] (modal_open demo_modal))))))
        CalledClose = 1"
proof -
  let ?ops = "[Frame, KeyDown (tab_event False), Update]"
  have h: "browser demo_page" "listeners demo_page = []"
    "with_default True (opt_trapFocus default_modal_options)"
    "with_default True (opt_closeOnEscape default_modal_options)"
    "key (key_event ''Escape'') = ''Escape''"
    "list_all quiet ?ops"
    by (simp_all add: demo_page_def default_modal_options_def with_default_def key_event_def
        tab_event_def)
  have z: "count_list (calls (snd (fold modal_step ?ops (modal_open demo_modal)))) CalledClose = 0"
    by code_simp
  from modal_escape_routed_once [OF h refl, of 0] h(1,2,6) z show ?thesis
    by (simp add: demo_modal_def del: fold_simps)
qed

section \<open>Overlays: destroy\<close>

text \<open>
  C1 on the code. \<open>destroy()\<close> writes neither \<open>isOpen\<close> nor \<open>backdropElement\<close>. For the
  modal and the drawer with the default options, \<open>open()\<close> followed by \<open>destroy()\<close> leaves
  \<open>isOpen\<close> true. The backdrop \<open>10\<close> that \<open>open()\<close> appended is removed from the body by
  \<open>destroy()\<close> when the modal is open; when \<open>close()\<close> has been called and its timer
  has not fired, \<open>isOpen\<close> is false and \<open>destroy()\<close> leaves the backdrop in the body.
\<close>

theorem destroy_leaves_isOpen_true:
  "isOpen (fst (modal_destroy (modal_open demo_modal)))
   \<and> isOpen (fst (drawer_destroy (drawer_open demo_drawer)))
   \<and> backdropElement (fst (modal_open demo_modal)) = Some 10
   \<and> 10 \<in> set (bodyChildren (snd (modal_open demo_modal)))
   \<and> 10 \<notin> set (bodyChildren (snd (modal_destroy (modal_open demo_modal))))
   \<and> \<not> isOpen (fst (modal_close (modal_open demo_modal)))
   \<and> 10 \<in> set (bodyChildren (snd (modal_destroy (modal_close (modal_open demo_modal)))))"
  by code_simp


end
